theory Spec2Isabelle
  imports Complex_Main
begin

section \<open>Python values and exceptions\<close>

text \<open>
  The exceptions that \<^verbatim>\<open>renderer/render.py\<close> raises, catches or lets through.
  \<open>MapLoadError\<close> and \<open>MapManifestLoadError\<close> are the repository's own
  (\<^verbatim>\<open>renderer.exceptions\<close>); they are raised \<^verbatim>\<open>from e\<close> and carry that cause.
  \<open>OtherError\<close> stands for any other subclass of \<^verbatim>\<open>Exception\<close> that a library
  call may raise (a JSON decoding error, a failing encoder, ...).
\<close>

datatype exn =
    FileNotFoundError
  | ModuleNotFoundError
  | KeyError
  | AttributeError
  | TypeError
  | ValueError
  | OverflowError
  | ZeroDivisionError
  | AssertionError
  | OtherError string
  | MapLoadError exn
  | MapManifestLoadError exn

text \<open>
  A Python \<^verbatim>\<open>float\<close> is an IEEE 754 binary64 number: a finite value (a dyadic
  rational, kept as a \<open>rat\<close>), an infinity or a NaN. The two zeros are one value
  here; their sign is lost by every operation the renderer applies to a product or a
  sum (an addition of a non-zero constant, a rounding to an integer).
\<close>

datatype pyfloat = Finite rat | PosInf | NegInf | NaN

text \<open>What \<^verbatim>\<open>json.load\<close> can return.\<close>

datatype pyval =
    PNone
  | PBool bool
  | PInt int
  | PFloat pyfloat
  | PStr string
  | PList "pyval list"
  | PDict "(string \<times> pyval) list"

text \<open>\<^verbatim>\<open>Number = Union[int, float]\<close>\<close>

datatype number = NInt int | NFloat pyfloat

section \<open>Binary64 arithmetic\<close>

text \<open>The number of binary digits of a natural number.\<close>

fun bitlen :: "nat \<Rightarrow> nat" where
  "bitlen n = (if n = 0 then 0 else Suc (bitlen (n div 2)))"

declare bitlen.simps [simp del]

definition pow2 :: "int \<Rightarrow> rat" where
  "pow2 k = (if 0 \<le> k then 2 ^ nat k else 1 / 2 ^ nat (- k))"

text \<open>For \<open>x \<noteq> 0\<close>, the exponent \<open>e\<close> with \<open>2 ^ e \<le> \<bar>x\<bar> < 2 ^ (e + 1)\<close>.\<close>

definition ilog2 :: "rat \<Rightarrow> int" where
  "ilog2 x =
     (if 1 \<le> \<bar>x\<bar> then int (bitlen (nat \<lfloor>\<bar>x\<bar>\<rfloor>)) - 1
      else - int (bitlen (nat (\<lceil>1 / \<bar>x\<bar>\<rceil> - 1))))"

text \<open>Rounding to the nearest integer, a tie going to the even neighbour.\<close>

definition round_half_even :: "rat \<Rightarrow> int" where
  "round_half_even x =
     (let f = \<lfloor>x\<rfloor>; d = x - of_int f
      in if d < 1 / 2 then f
         else if 1 / 2 < d then f + 1
         else if even f then f else f + 1)"

text \<open>
  The binary64 number nearest to a rational (round to nearest, ties to even): 53
  significant bits, the least exponent \<open>- 1022\<close> (below it the spacing stays
  \<open>2 ^ (- 1074)\<close>), and an infinity once the rounded value reaches \<open>2 ^ 1024\<close>.
\<close>

definition round_double :: "rat \<Rightarrow> pyfloat" where
  "round_double x =
     (if x = 0 then Finite 0
      else let q = max (ilog2 x) (- 1022) - 52;
               r = of_int (round_half_even (x / pow2 q)) * pow2 q
           in if pow2 1024 \<le> \<bar>r\<bar> then (if 0 < x then PosInf else NegInf)
              else Finite r)"

fun fneg :: "pyfloat \<Rightarrow> pyfloat" where
  "fneg (Finite a) = Finite (- a)"
| "fneg PosInf = NegInf"
| "fneg NegInf = PosInf"
| "fneg NaN = NaN"

fun fadd :: "pyfloat \<Rightarrow> pyfloat \<Rightarrow> pyfloat" where
  "fadd (Finite a) (Finite b) = round_double (a + b)"
| "fadd NaN _ = NaN"
| "fadd _ NaN = NaN"
| "fadd PosInf NegInf = NaN"
| "fadd NegInf PosInf = NaN"
| "fadd PosInf _ = PosInf"
| "fadd NegInf _ = NegInf"
| "fadd (Finite a) PosInf = PosInf"
| "fadd (Finite a) NegInf = NegInf"

fun fmul :: "pyfloat \<Rightarrow> pyfloat \<Rightarrow> pyfloat" where
  "fmul (Finite a) (Finite b) = round_double (a * b)"
| "fmul NaN _ = NaN"
| "fmul _ NaN = NaN"
| "fmul PosInf (Finite b) = (if b = 0 then NaN else if 0 < b then PosInf else NegInf)"
| "fmul NegInf (Finite b) = (if b = 0 then NaN else if 0 < b then NegInf else PosInf)"
| "fmul (Finite a) PosInf = (if a = 0 then NaN else if 0 < a then PosInf else NegInf)"
| "fmul (Finite a) NegInf = (if a = 0 then NaN else if 0 < a then NegInf else PosInf)"
| "fmul PosInf PosInf = PosInf"
| "fmul NegInf NegInf = PosInf"
| "fmul PosInf NegInf = NegInf"
| "fmul NegInf PosInf = NegInf"

text \<open>\<^verbatim>\<open>float(i)\<close> for an \<^verbatim>\<open>int\<close>: correctly rounded, OverflowError beyond the range.\<close>

definition float_of_int :: "int \<Rightarrow> exn + pyfloat" where
  "float_of_int i =
     (case round_double (of_int i) of
        Finite r \<Rightarrow> Inr (Finite r)
      | _ \<Rightarrow> Inl OverflowError)"

text \<open>\<^verbatim>\<open>a / b\<close> on two \<^verbatim>\<open>int\<close>s: the correctly rounded quotient.\<close>

definition truediv_int :: "int \<Rightarrow> int \<Rightarrow> exn + pyfloat" where
  "truediv_int a b =
     (if b = 0 then Inl ZeroDivisionError
      else case round_double (of_int a / of_int b) of
             Finite r \<Rightarrow> Inr (Finite r)
           | _ \<Rightarrow> Inl OverflowError)"

text \<open>\<^verbatim>\<open>x * s\<close> for a Number \<open>x\<close> and a float \<open>s\<close>: an int operand is converted first.\<close>

definition mul_float :: "number \<Rightarrow> pyfloat \<Rightarrow> exn + pyfloat" where
  "mul_float x s =
     (case x of
        NInt i \<Rightarrow> (case float_of_int i of Inl e \<Rightarrow> Inl e | Inr f \<Rightarrow> Inr (fmul f s))
      | NFloat f \<Rightarrow> Inr (fmul f s))"

text \<open>\<^verbatim>\<open>-y\<close> for a Number.\<close>

definition neg :: "number \<Rightarrow> number" where
  "neg y = (case y of NInt i \<Rightarrow> NInt (- i) | NFloat f \<Rightarrow> NFloat (fneg f))"

text \<open>
  \<^verbatim>\<open>round(f)\<close> with one argument: the nearest \<^verbatim>\<open>int\<close>, ties to even; OverflowError
  on an infinity, ValueError on a NaN.
\<close>

definition py_round :: "pyfloat \<Rightarrow> exn + int" where
  "py_round f =
     (case f of
        Finite r \<Rightarrow> Inr (round_half_even r)
      | PosInf \<Rightarrow> Inl OverflowError
      | NegInf \<Rightarrow> Inl OverflowError
      | NaN \<Rightarrow> Inl ValueError)"

section \<open>The render session\<close>

text \<open>
  \<^verbatim>\<open>ReplayData\<close> as the renderer reads it: the version, the map, and \<open>events\<close>, a
  dict from game time to that moment's events, kept in insertion order as an
  association list.
\<close>

record 'ev replay_data =
  game_version :: string
  game_map :: string
  events :: "(int \<times> 'ev) list"

text \<open>
  The fields of \<^verbatim>\<open>Renderer\<close>, as \<^verbatim>\<open>__init__\<close> sets them. The two images are
  references to image objects in the store (\<open>None\<close> until the map is loaded).
\<close>

record 'ev renderer =
  replay_data :: "'ev replay_data"
  res :: string
  minimap_image :: "nat option"
  minimap_bg :: "nat option"
  minimap_size :: int
  space_size :: int
  scaling :: pyfloat

definition package :: string where
  "package = ''renderer''"

definition init :: "'ev replay_data \<Rightarrow> 'ev renderer" where
  "init rd =
     \<lparr> replay_data = rd,
       res = package @ ''.resources'',
       minimap_image = None,
       minimap_bg = None,
       minimap_size = 0,
       space_size = 0,
       scaling = Finite 0 \<rparr>"

section \<open>Scaling coordinates\<close>

text \<open>One axis of \<^verbatim>\<open>get_scaled\<close>: \<^verbatim>\<open>round(v * self.scaling + self.minimap_size / 2)\<close>.\<close>

definition scale_axis :: "'ev renderer \<Rightarrow> number \<Rightarrow> exn + int" where
  "scale_axis self v =
     (case mul_float v (scaling self) of
        Inl e \<Rightarrow> Inl e
      | Inr p \<Rightarrow>
          (case truediv_int (minimap_size self) 2 of
             Inl e \<Rightarrow> Inl e
           | Inr h \<Rightarrow> py_round (fadd p h)))"

definition get_scaled :: "'ev renderer \<Rightarrow> number \<times> number \<Rightarrow> bool \<Rightarrow> exn + int \<times> int" where
  "get_scaled self xy flip_y =
     (let x = fst xy; y = snd xy;
          y = (if flip_y then neg y else y)
      in case scale_axis self x of
           Inl e \<Rightarrow> Inl e
         | Inr px \<Rightarrow>
             (case scale_axis self y of
                Inl e \<Rightarrow> Inl e
              | Inr py \<Rightarrow> Inr (px, py)))"

definition get_scaled_r :: "'ev renderer \<Rightarrow> number \<Rightarrow> exn + pyfloat" where
  "get_scaled_r self r = mul_float r (scaling self)"

section \<open>Loading the map manifest\<close>

text \<open>
  \<^verbatim>\<open>json.load(f)[key]\<close>: subscripting with a string succeeds on a dict that has the
  key, raises KeyError on a dict that lacks it, and TypeError on every other JSON
  value. A dict is an association list with distinct keys.
\<close>

definition getitem :: "pyval \<Rightarrow> string \<Rightarrow> exn + pyval" where
  "getitem v k =
     (case v of
        PDict kvs \<Rightarrow> (case map_of kvs k of None \<Rightarrow> Inl KeyError | Some x \<Rightarrow> Inr x)
      | _ \<Rightarrow> Inl TypeError)"

text \<open>
  The tuple assignment \<^verbatim>\<open>a, b, c = manifest\<close> iterates its right-hand side: a
  list gives its elements, a string its characters, a dict its keys; the other JSON
  values are not iterable (TypeError). Anything but three items is a ValueError.
\<close>

definition iterate :: "pyval \<Rightarrow> exn + pyval list" where
  "iterate v =
     (case v of
        PList xs \<Rightarrow> Inr xs
      | PStr s \<Rightarrow> Inr (map (\<lambda>c. PStr [c]) s)
      | PDict kvs \<Rightarrow> Inr (map (\<lambda>kv. PStr (fst kv)) kvs)
      | _ \<Rightarrow> Inl TypeError)"

definition unpack3 :: "pyval \<Rightarrow> exn + pyval \<times> pyval \<times> pyval" where
  "unpack3 v =
     (case iterate v of
        Inl e \<Rightarrow> Inl e
      | Inr xs \<Rightarrow> (case xs of [a, b, c] \<Rightarrow> Inr (a, b, c) | _ \<Rightarrow> Inl ValueError))"

text \<open>\<^verbatim>\<open>isinstance(v, int)\<close> holds of a \<^verbatim>\<open>bool\<close> too: \<^verbatim>\<open>bool\<close> is a subclass of \<^verbatim>\<open>int\<close>.\<close>

definition isinstance_int :: "pyval \<Rightarrow> bool" where
  "isinstance_int v = (case v of PInt _ \<Rightarrow> True | PBool _ \<Rightarrow> True | _ \<Rightarrow> False)"

definition isinstance_float :: "pyval \<Rightarrow> bool" where
  "isinstance_float v = (case v of PFloat _ \<Rightarrow> True | _ \<Rightarrow> False)"

definition int_value :: "pyval \<Rightarrow> int" where
  "int_value v = (case v of PInt i \<Rightarrow> i | PBool b \<Rightarrow> (if b then 1 else 0) | _ \<Rightarrow> 0)"

definition float_value :: "pyval \<Rightarrow> pyfloat" where
  "float_value v = (case v of PFloat f \<Rightarrow> f | _ \<Rightarrow> NaN)"

text \<open>The five assertions of \<^verbatim>\<open>_load_map_manifest\<close>, in their order.\<close>

definition entry_ok :: "pyval \<times> pyval \<times> pyval \<Rightarrow> bool" where
  "entry_ok m =
     (case m of (a, b, c) \<Rightarrow>
        isinstance_int a \<and> isinstance_int b \<and> isinstance_float c
        \<and> (0 < int_value b \<and> int_value b \<le> 1600)
        \<and> 760 = int_value a)"

text \<open>
  The body of one \<^verbatim>\<open>with open_text(pkg, "manifest.json")\<close> block: open and parse
  the manifest (\<open>open_json\<close>, the environment: a missing package raises
  ModuleNotFoundError, a package without the file FileNotFoundError), look the map
  up, unpack its entry.
\<close>

definition read_manifest ::
  "(string \<Rightarrow> string \<Rightarrow> exn + pyval) \<Rightarrow> string \<Rightarrow> string \<Rightarrow> exn + pyval \<times> pyval \<times> pyval" where
  "read_manifest open_json pkg gmap =
     (case open_json pkg ''manifest.json'' of
        Inl e \<Rightarrow> Inl e
      | Inr j \<Rightarrow> (case getitem j gmap of Inl e \<Rightarrow> Inl e | Inr m \<Rightarrow> unpack3 m))"

definition versioned_spaces :: "string \<Rightarrow> string" where
  "versioned_spaces version = package @ ''.versions.'' @ version @ ''.resources.spaces''"

definition default_spaces :: "'ev renderer \<Rightarrow> string" where
  "default_spaces self = res self @ ''.spaces''"

text \<open>
  \<^verbatim>\<open>_load_map_manifest\<close>. The inner \<^verbatim>\<open>try\<close> reads the versioned manifest and
  its handler, for FileNotFoundError and KeyError only, reads the default one; the
  outer \<^verbatim>\<open>try\<close> turns every exception, the failed assertions included, into
  MapManifestLoadError. The result is the session with its three fields set and the
  package of the map's resources.
\<close>

definition load_map_manifest ::
  "(string \<Rightarrow> string \<Rightarrow> exn + pyval) \<Rightarrow> 'ev renderer \<Rightarrow> exn + 'ev renderer \<times> string" where
  "load_map_manifest open_json self =
     (let version = game_version (replay_data self);
          pkg = versioned_spaces version;
          map_default = default_spaces self @ ''.'' @ game_map (replay_data self);
          map_versioned = pkg @ ''.'' @ game_map (replay_data self);
          inner =
            (case read_manifest open_json pkg (game_map (replay_data self)) of
               Inr m \<Rightarrow> Inr (m, map_versioned)
             | Inl e \<Rightarrow>
                 if e = FileNotFoundError \<or> e = KeyError then
                   (case read_manifest open_json (default_spaces self)
                           (game_map (replay_data self)) of
                      Inr m \<Rightarrow> Inr (m, map_default)
                    | Inl e' \<Rightarrow> Inl e')
                 else Inl e)
      in case inner of
           Inl e \<Rightarrow> Inl (MapManifestLoadError e)
         | Inr (m, map_res) \<Rightarrow>
             if entry_ok m then
               Inr (self\<lparr> minimap_size := int_value (fst m),
                          space_size := int_value (fst (snd m)),
                          scaling := float_value (snd (snd m)) \<rparr>, map_res)
             else Inl (MapManifestLoadError AssertionError))"

section \<open>The layer registry\<close>

text \<open>
  A layer class is known by the module that defines it and by its name; what its
  \<^verbatim>\<open>draw\<close> paints is outside this development. A module is the association
  list of its attributes. A layer is an instance of its class, bound to the session
  (\<^verbatim>\<open>m_layer(self)\<close>).
\<close>

datatype layer_class = LayerClass string string

type_synonym py_module = "(string \<times> layer_class) list"

datatype 'ev layer = Layer layer_class "'ev renderer"

text \<open>
  \<^verbatim>\<open>renderer/layers/__init__.py\<close>: the fifteen names that
  \<^verbatim>\<open>from .ship import LayerShipBase\<close> and the lines after it bind, in their order.
\<close>

definition layers_init :: py_module where
  "layers_init =
     map (\<lambda>mn. (snd mn, LayerClass (package @ ''.layers.'' @ fst mn) (snd mn)))
       [(''ship'', ''LayerShipBase''),
        (''smoke'', ''LayerSmokeBase''),
        (''shot'', ''LayerShotBase''),
        (''torpedo'', ''LayerTorpedoBase''),
        (''plane'', ''LayerPlaneBase''),
        (''ward'', ''LayerWardBase''),
        (''capture'', ''LayerCaptureBase''),
        (''health'', ''LayerHealthBase''),
        (''score'', ''LayerScoreBase''),
        (''counter'', ''LayerCounterBase''),
        (''frag'', ''LayerFragBase''),
        (''timer'', ''LayerTimerBase''),
        (''ribbon'', ''LayerRibbonBase''),
        (''chat'', ''LayerChatBase''),
        (''building'', ''LayerBuildingBase'')]"

text \<open>
  \<^verbatim>\<open>import_module(name, pkg)\<close> with a relative \<open>name\<close>: the module \<open>pkg @ name\<close>.
  The renderer's own \<^verbatim>\<open>layers\<close> package is the one above; every other module is
  the environment's (\<open>modules\<close>: a module that does not exist is a
  ModuleNotFoundError).
\<close>

definition import_module ::
  "(string \<Rightarrow> exn + py_module) \<Rightarrow> string \<Rightarrow> string \<Rightarrow> exn + py_module" where
  "import_module modules name pkg =
     (if pkg @ name = package @ ''.layers'' then Inr layers_init else modules (pkg @ name))"

definition getattr :: "py_module \<Rightarrow> string \<Rightarrow> exn + layer_class" where
  "getattr m name = (case map_of m name of None \<Rightarrow> Inl AttributeError | Some c \<Rightarrow> Inr c)"

text \<open>The list \<^verbatim>\<open>layers\<close> of \<^verbatim>\<open>_check_versioned_layers\<close>.\<close>

definition layers :: "string list" where
  "layers =
     [''LayerShip'', ''LayerShot'', ''LayerTorpedo'', ''LayerSmoke'', ''LayerPlane'',
      ''LayerWard'', ''LayerCapture'']"

text \<open>
  The body of the loop of \<^verbatim>\<open>_check_versioned_layers\<close> for one name: the
  \<^verbatim>\<open>try\<close> looks the name up in the version's \<^verbatim>\<open>layers\<close> module; its handler,
  for ModuleNotFoundError and AttributeError only, takes \<^verbatim>\<open>layer + "Base"\<close> from
  the renderer's own module; the class found is instantiated with the session.
\<close>

definition resolve_layer ::
  "(string \<Rightarrow> exn + py_module) \<Rightarrow> 'ev renderer \<Rightarrow> string \<Rightarrow> exn + 'ev layer" where
  "resolve_layer modules self layer =
     (let versioned_layers_pkg = package @ ''.versions.'' @ game_version (replay_data self);
          versioned =
            (case import_module modules ''.layers'' versioned_layers_pkg of
               Inl e \<Rightarrow> Inl e
             | Inr m \<Rightarrow> getattr m layer);
          m_layer =
            (case versioned of
               Inr c \<Rightarrow> Inr c
             | Inl e \<Rightarrow>
                 if e = ModuleNotFoundError \<or> e = AttributeError then
                   (case import_module modules ''.layers'' package of
                      Inl e' \<Rightarrow> Inl e'
                    | Inr m \<Rightarrow> getattr m (layer @ ''Base''))
                 else Inl e)
      in case m_layer of Inl e \<Rightarrow> Inl e | Inr c \<Rightarrow> Inr (Layer c self))"

text \<open>The loop: \<open>init_layers\<close> grows by one instance per name.\<close>

fun layers_loop ::
  "(string \<Rightarrow> exn + py_module) \<Rightarrow> 'ev renderer \<Rightarrow> string list \<Rightarrow> 'ev layer list
   \<Rightarrow> exn + 'ev layer list" where
  "layers_loop modules self [] init_layers = Inr init_layers"
| "layers_loop modules self (layer # rest) init_layers =
     (case resolve_layer modules self layer of
        Inl e \<Rightarrow> Inl e
      | Inr l \<Rightarrow> layers_loop modules self rest (init_layers @ [l]))"

definition check_versioned_layers ::
  "(string \<Rightarrow> exn + py_module) \<Rightarrow> 'ev renderer \<Rightarrow> exn + 'ev layer list" where
  "check_versioned_layers modules self = layers_loop modules self layers []"

section \<open>Images, the video writer and the store\<close>

text \<open>
  PIL images are mutable objects: \<^verbatim>\<open>copy\<close> makes a new one, \<^verbatim>\<open>paste\<close> and a
  layer's \<^verbatim>\<open>draw\<close> change one in place. The store \<open>images\<close> holds the content of
  every image object of the session; a reference is an index into it. What an image
  holds (\<open>'img\<close>) and what the library calls compute are parameters: the environment
  \<open>env\<close> gives, for each call the renderer makes, its result or the exception it
  raises.
\<close>

text \<open>
  A layer draws either on the image itself or on \<^verbatim>\<open>ImageDraw.Draw(image)\<close>, a
  drawing context on that same image.
\<close>

datatype surface = AsImage | AsDraw

datatype canvas = Canvas surface nat

fun target :: "canvas \<Rightarrow> nat" where
  "target (Canvas s r) = r"

fun surface_of :: "canvas \<Rightarrow> surface" where
  "surface_of (Canvas s r) = s"

text \<open>The arguments of \<^verbatim>\<open>imageio_ffmpeg.write_frames\<close>.\<close>

record writer_args =
  path :: string
  fps :: nat
  quality :: nat
  pix_fmt_in :: string
  macro_block_size :: nat
  frame_size :: "nat \<times> nat"

text \<open>
  The generator that \<^verbatim>\<open>write_frames\<close> returns: created, running once
  \<^verbatim>\<open>send(None)\<close> has started the encoder, closed by \<^verbatim>\<open>close()\<close>, or ended by an
  exception of its own (\<open>Failed\<close>). \<open>sent\<close> are the frames it has been sent.
\<close>

datatype writer_status = Created | Running | Closed | Failed

record 'b video_writer =
  args :: writer_args
  status :: writer_status
  sent :: "'b list"

record ('img, 'b) world =
  images :: "'img list"
  writer :: "'b video_writer option"

record ('ev, 'img, 'b) env =
  open_json :: "string \<Rightarrow> string \<Rightarrow> exn + pyval"
  load_image :: "string \<Rightarrow> string \<Rightarrow> exn + 'img"
  modules :: "string \<Rightarrow> exn + py_module"
  draw_grid :: "'img"
  size_of :: "'img \<Rightarrow> nat \<times> nat"
  resize :: "'img \<Rightarrow> nat \<times> nat \<Rightarrow> 'img"
  paste :: "'img \<Rightarrow> 'img \<Rightarrow> (int \<times> int) option \<Rightarrow> 'img option \<Rightarrow> exn + 'img"
  alpha_composite :: "'img \<Rightarrow> 'img \<Rightarrow> exn + 'img"
  layer_draw :: "'ev layer \<Rightarrow> int \<Rightarrow> surface \<Rightarrow> 'img \<Rightarrow> exn + 'img"
  tobytes :: "'img \<Rightarrow> 'b"
  ffmpeg_start :: "writer_args \<Rightarrow> exn option"
  ffmpeg_write :: "writer_args \<Rightarrow> 'b list \<Rightarrow> 'b \<Rightarrow> exn option"

text \<open>
  A statement runs in a store and ends with a value or an exception, and the store
  it leaves. \<open>seq\<close> runs a statement and then the rest, unless it raised.
\<close>

definition seq ::
  "('w \<Rightarrow> (exn + 'a) \<times> 'w) \<Rightarrow> ('a \<Rightarrow> 'w \<Rightarrow> (exn + 'c) \<times> 'w) \<Rightarrow> 'w \<Rightarrow> (exn + 'c) \<times> 'w" where
  "seq m f w = (case m w of (Inl e, w') \<Rightarrow> (Inl e, w') | (Inr a, w') \<Rightarrow> f a w')"

definition ok :: "'a \<Rightarrow> 'w \<Rightarrow> (exn + 'a) \<times> 'w" where
  "ok a w = (Inr a, w)"

definition raise :: "exn \<Rightarrow> 'w \<Rightarrow> (exn + 'a) \<times> 'w" where
  "raise e w = (Inl e, w)"

definition lift :: "exn + 'a \<Rightarrow> 'w \<Rightarrow> (exn + 'a) \<times> 'w" where
  "lift r w = (r, w)"

text \<open>A new image object with the given content; its reference is the result.\<close>

definition new_image :: "'img \<Rightarrow> ('img, 'b) world \<Rightarrow> (exn + nat) \<times> ('img, 'b) world" where
  "new_image img w = (Inr (length (images w)), w\<lparr> images := images w @ [img] \<rparr>)"

text \<open>\<^verbatim>\<open>im.copy()\<close>\<close>

definition copy_image :: "nat \<Rightarrow> ('img, 'b) world \<Rightarrow> (exn + nat) \<times> ('img, 'b) world" where
  "copy_image r w = new_image (images w ! r) w"

text \<open>A call that changes the image \<open>r\<close> in place, or raises and leaves it.\<close>

definition update_image ::
  "nat \<Rightarrow> ('img \<Rightarrow> exn + 'img) \<Rightarrow> ('img, 'b) world \<Rightarrow> (exn + unit) \<times> ('img, 'b) world" where
  "update_image r f w =
     (case f (images w ! r) of
        Inl e \<Rightarrow> (Inl e, w)
      | Inr img \<Rightarrow> (Inr (), w\<lparr> images := (images w)[r := img] \<rparr>))"

text \<open>\<^verbatim>\<open>layer.draw(game_time, canvas)\<close>\<close>

definition draw ::
  "('ev, 'img, 'b) env \<Rightarrow> 'ev layer \<Rightarrow> int \<Rightarrow> canvas \<Rightarrow> ('img, 'b) world
   \<Rightarrow> (exn + unit) \<times> ('img, 'b) world" where
  "draw env layer game_time c =
     update_image (target c) (layer_draw env layer game_time (surface_of c))"

text \<open>\<^verbatim>\<open>dst.paste(src, box)\<close> for two image objects.\<close>

definition paste_image ::
  "('ev, 'img, 'b) env \<Rightarrow> nat \<Rightarrow> nat \<Rightarrow> int \<times> int \<Rightarrow> ('img, 'b) world
   \<Rightarrow> (exn + unit) \<times> ('img, 'b) world" where
  "paste_image env dst src box w =
     update_image dst (\<lambda>d. paste env d (images w ! src) (Some box) None) w"

text \<open>\<^verbatim>\<open>write_frames(...)\<close> makes the generator; nothing of it runs yet.\<close>

definition write_frames :: "writer_args \<Rightarrow> ('img, 'b) world \<Rightarrow> (exn + unit) \<times> ('img, 'b) world" where
  "write_frames a w =
     (Inr (), w\<lparr> writer := Some \<lparr> args = a, status = Created, sent = [] \<rparr> \<rparr>)"

text \<open>
  \<^verbatim>\<open>video_writer.send(None)\<close> starts the encoder; \<^verbatim>\<open>video_writer.send(frame)\<close>
  writes one frame. An exception of the generator ends it.
\<close>

definition send_none ::
  "('ev, 'img, 'b) env \<Rightarrow> ('img, 'b) world \<Rightarrow> (exn + unit) \<times> ('img, 'b) world" where
  "send_none env w =
     (case writer w of
        None \<Rightarrow> (Inl (OtherError ''video_writer is unbound''), w)
      | Some vw \<Rightarrow>
          (case ffmpeg_start env (args vw) of
             Some e \<Rightarrow> (Inl e, w\<lparr> writer := Some (vw\<lparr> status := Failed \<rparr>) \<rparr>)
           | None \<Rightarrow> (Inr (), w\<lparr> writer := Some (vw\<lparr> status := Running \<rparr>) \<rparr>)))"

definition send ::
  "('ev, 'img, 'b) env \<Rightarrow> 'b \<Rightarrow> ('img, 'b) world \<Rightarrow> (exn + unit) \<times> ('img, 'b) world" where
  "send env frame w =
     (case writer w of
        None \<Rightarrow> (Inl (OtherError ''video_writer is unbound''), w)
      | Some vw \<Rightarrow>
          (case ffmpeg_write env (args vw) (sent vw) frame of
             Some e \<Rightarrow> (Inl e, w\<lparr> writer := Some (vw\<lparr> status := Failed \<rparr>) \<rparr>)
           | None \<Rightarrow> (Inr (), w\<lparr> writer := Some (vw\<lparr> sent := sent vw @ [frame] \<rparr>) \<rparr>)))"

definition close :: "('img, 'b) world \<Rightarrow> (exn + unit) \<times> ('img, 'b) world" where
  "close w =
     (case writer w of
        None \<Rightarrow> (Inl (OtherError ''video_writer is unbound''), w)
      | Some vw \<Rightarrow> (Inr (), w\<lparr> writer := Some (vw\<lparr> status := Closed \<rparr>) \<rparr>))"

section \<open>Loading the map\<close>

text \<open>
  The \<^verbatim>\<open>try\<close> block of \<^verbatim>\<open>_load_map\<close>. The three loaded images and the grid are
  used as values; the two images the session keeps are objects of the store.
\<close>

definition load_map_images ::
  "('ev, 'img, 'b) env \<Rightarrow> 'ev renderer \<Rightarrow> string \<Rightarrow> ('img, 'b) world
   \<Rightarrow> (exn + 'ev renderer) \<times> ('img, 'b) world" where
  "load_map_images env self map_res =
     seq (lift (load_image env (res self) ''minimap_grid_legends.png'')) (\<lambda>map_legends.
     seq (lift (load_image env map_res ''minimap.png'')) (\<lambda>map_land.
     seq (lift (load_image env map_res ''minimap_water.png'')) (\<lambda>map_water.
     seq (new_image (resize env map_water (size_of env map_legends))) (\<lambda>bg.
     seq (update_image bg (\<lambda>d. paste env d map_legends None (Some map_legends))) (\<lambda>_.
     seq (lift (alpha_composite env map_water (draw_grid env))) (\<lambda>map_water.
     seq (lift (alpha_composite env map_water map_land)) (\<lambda>composed.
     seq (new_image composed) (\<lambda>fg.
     ok (self\<lparr> minimap_bg := Some bg, minimap_image := Some fg \<rparr>)))))))))"

text \<open>
  \<^verbatim>\<open>_load_map\<close>: the manifest first; then the images, where FileNotFoundError and
  ModuleNotFoundError become MapLoadError and any other exception passes.
\<close>

definition load_map ::
  "('ev, 'img, 'b) env \<Rightarrow> 'ev renderer \<Rightarrow> ('img, 'b) world
   \<Rightarrow> (exn + 'ev renderer) \<times> ('img, 'b) world" where
  "load_map env self w =
     (case load_map_manifest (open_json env) self of
        Inl e \<Rightarrow> (Inl e, w)
      | Inr (self', map_res) \<Rightarrow>
          (case load_map_images env self' map_res w of
             (Inl e, w') \<Rightarrow>
               if e = FileNotFoundError \<or> e = ModuleNotFoundError
               then (Inl (MapLoadError e), w') else (Inl e, w')
           | (Inr self'', w') \<Rightarrow> (Inr self'', w')))"

section \<open>Rendering\<close>

text \<open>The seven names that \<^verbatim>\<open>start\<close> binds to the result of the registry.\<close>

record 'ev bound_layers =
  layer_ship :: "'ev layer"
  layer_shot :: "'ev layer"
  layer_torpedo :: "'ev layer"
  layer_smoke :: "'ev layer"
  layer_plane :: "'ev layer"
  layer_ward :: "'ev layer"
  layer_capture :: "'ev layer"

text \<open>
  The tuple assignment of \<^verbatim>\<open>start\<close>: seven targets, by position; a list of another
  length is a ValueError.
\<close>

definition bind_layers :: "'ev layer list \<Rightarrow> exn + 'ev bound_layers" where
  "bind_layers ls =
     (case ls of
        [l1, l2, l3, l4, l5, l6, l7] \<Rightarrow>
          Inr \<lparr> layer_ship = l1, layer_shot = l2, layer_torpedo = l3, layer_smoke = l4,
                layer_plane = l5, layer_ward = l6, layer_capture = l7 \<rparr>
      | _ \<Rightarrow> Inl ValueError)"

text \<open>
  The body of the loop of \<^verbatim>\<open>start\<close> for one \<open>game_time\<close>; \<open>fg\<close> and \<open>bg\<close> are
  \<^verbatim>\<open>self.minimap_image\<close> and \<^verbatim>\<open>self.minimap_bg\<close>.
\<close>

definition render_frame ::
  "('ev, 'img, 'b) env \<Rightarrow> 'ev bound_layers \<Rightarrow> nat \<Rightarrow> nat \<Rightarrow> int \<Rightarrow> ('img, 'b) world
   \<Rightarrow> (exn + unit) \<times> ('img, 'b) world" where
  "render_frame env ls fg bg game_time =
     seq (copy_image fg) (\<lambda>minimap_img.
     seq (copy_image bg) (\<lambda>minimap_bg.
     seq (draw env (layer_capture ls) game_time (Canvas AsImage minimap_img)) (\<lambda>_.
     seq (draw env (layer_ward ls) game_time (Canvas AsImage minimap_img)) (\<lambda>_.
     seq (draw env (layer_shot ls) game_time (Canvas AsDraw minimap_img)) (\<lambda>_.
     seq (draw env (layer_torpedo ls) game_time (Canvas AsDraw minimap_img)) (\<lambda>_.
     seq (draw env (layer_ship ls) game_time (Canvas AsImage minimap_img)) (\<lambda>_.
     seq (draw env (layer_smoke ls) game_time (Canvas AsImage minimap_img)) (\<lambda>_.
     seq (draw env (layer_plane ls) game_time (Canvas AsImage minimap_img)) (\<lambda>_.
     seq (paste_image env minimap_bg minimap_img (40, 40)) (\<lambda>_.
     (\<lambda>w. send env (tobytes env (images w ! minimap_bg)) w)))))))))))"

fun frames_loop ::
  "('ev, 'img, 'b) env \<Rightarrow> 'ev bound_layers \<Rightarrow> nat \<Rightarrow> nat \<Rightarrow> int list \<Rightarrow> ('img, 'b) world
   \<Rightarrow> (exn + unit) \<times> ('img, 'b) world" where
  "frames_loop env ls fg bg [] w = (Inr (), w)"
| "frames_loop env ls fg bg (game_time # rest) w =
     (case render_frame env ls fg bg game_time w of
        (Inl e, w') \<Rightarrow> (Inl e, w')
      | (Inr _, w') \<Rightarrow> frames_loop env ls fg bg rest w')"

text \<open>
  \<^verbatim>\<open>start\<close>. The two \<^verbatim>\<open>assert\<close>s hold of every image object (a PIL image is
  truthy) and fail on \<^verbatim>\<open>None\<close>. The session, with the fields \<^verbatim>\<open>_load_map\<close> has
  set, is the result.
\<close>

definition start ::
  "('ev, 'img, 'b) env \<Rightarrow> 'ev renderer \<Rightarrow> ('img, 'b) world
   \<Rightarrow> (exn + 'ev renderer) \<times> ('img, 'b) world" where
  "start env self =
     seq (load_map env self) (\<lambda>self.
       case minimap_image self of
         None \<Rightarrow> raise AssertionError
       | Some fg \<Rightarrow>
          (case minimap_bg self of
             None \<Rightarrow> raise AssertionError
           | Some bg \<Rightarrow>
               seq (lift (check_versioned_layers (modules env) self)) (\<lambda>init_layers.
               seq (lift (bind_layers init_layers)) (\<lambda>ls.
               seq (\<lambda>w. write_frames
                      \<lparr> path = ''minimap.mp4'', fps = 20, quality = 9, pix_fmt_in = ''rgba'',
                        macro_block_size = 20, frame_size = size_of env (images w ! bg) \<rparr> w) (\<lambda>_.
               seq (send_none env) (\<lambda>_.
               seq (frames_loop env ls fg bg (map fst (events (replay_data self)))) (\<lambda>_.
               seq close (\<lambda>_.
               ok self))))))))"

section \<open>The specification's notions and example inputs\<close>

text \<open>
  The coordinate transform as the specification words it, on exact numbers: each
  axis is \<^verbatim>\<open>round(world * scale + minimap_size / 2)\<close>, the y coordinate negated
  first when \<open>flip_y\<close> is set. The product, the quotient and the sum are each the
  nearest binary64 number to the exact result (\<open>nearest\<close>: none when that leaves the
  binary64 range), and \<^verbatim>\<open>round\<close> goes to the nearest integer, a tie to the even one.
\<close>

definition nearest :: "rat \<Rightarrow> rat option" where
  "nearest x = (case round_double x of Finite r \<Rightarrow> Some r | _ \<Rightarrow> None)"

definition pixel :: "rat \<Rightarrow> int \<Rightarrow> rat \<Rightarrow> int option" where
  "pixel scale msize world =
     (case nearest (world * scale) of
        None \<Rightarrow> None
      | Some p \<Rightarrow>
          (case nearest (of_int msize / 2) of
             None \<Rightarrow> None
           | Some h \<Rightarrow>
               (case nearest (p + h) of
                  None \<Rightarrow> None
                | Some q \<Rightarrow> Some (round_half_even q))))"

definition to_pixels :: "rat \<Rightarrow> int \<Rightarrow> rat \<times> rat \<Rightarrow> bool \<Rightarrow> (int \<times> int) option" where
  "to_pixels scale msize world_xy flip_y =
     (case pixel scale msize (fst world_xy) of
        None \<Rightarrow> None
      | Some px \<Rightarrow>
          (case pixel scale msize (if flip_y then - snd world_xy else snd world_xy) of
             None \<Rightarrow> None
           | Some py \<Rightarrow> Some (px, py)))"

text \<open>
  The number a coordinate stands for in that arithmetic: a finite float is its
  value, an \<^verbatim>\<open>int\<close> the binary64 number nearest to it (the \<^verbatim>\<open>int\<close> itself up to
  \<open>2 ^ 53\<close>). An infinity, a NaN and an \<^verbatim>\<open>int\<close> beyond the binary64 range have none.
\<close>

definition world_value :: "number \<Rightarrow> rat option" where
  "world_value v =
     (case v of
        NInt i \<Rightarrow> nearest (of_int i)
      | NFloat f \<Rightarrow> (case f of Finite a \<Rightarrow> Some a | _ \<Rightarrow> None))"

text \<open>
  A manifest entry is valid when it unpacks into three values that pass the
  assertions; \<open>entry_error\<close> is the exception an invalid one ends in.
\<close>

definition valid_entry :: "pyval \<Rightarrow> bool" where
  "valid_entry v = (case unpack3 v of Inl _ \<Rightarrow> False | Inr m \<Rightarrow> entry_ok m)"

definition entry_error :: "pyval \<Rightarrow> exn" where
  "entry_error v = (case unpack3 v of Inl e \<Rightarrow> e | Inr _ \<Rightarrow> AssertionError)"

text \<open>What the two \<^verbatim>\<open>with\<close> blocks of \<^verbatim>\<open>_load_map_manifest\<close> read for a session.\<close>

definition versioned_read ::
  "(string \<Rightarrow> string \<Rightarrow> exn + pyval) \<Rightarrow> 'ev renderer \<Rightarrow> exn + pyval \<times> pyval \<times> pyval" where
  "versioned_read files self =
     read_manifest files (versioned_spaces (game_version (replay_data self)))
       (game_map (replay_data self))"

definition default_read ::
  "(string \<Rightarrow> string \<Rightarrow> exn + pyval) \<Rightarrow> 'ev renderer \<Rightarrow> exn + pyval \<times> pyval \<times> pyval" where
  "default_read files self =
     read_manifest files (default_spaces self) (game_map (replay_data self))"

text \<open>
  The entry the resolution selects: the versioned one when it is read; the default
  one when the versioned manifest is missing (FileNotFoundError) or lacks the map
  (KeyError); none otherwise.
\<close>

definition selected_entry ::
  "(string \<Rightarrow> string \<Rightarrow> exn + pyval) \<Rightarrow> 'ev renderer \<Rightarrow> (pyval \<times> pyval \<times> pyval) option" where
  "selected_entry files self =
     (case versioned_read files self of
        Inr m \<Rightarrow> Some m
      | Inl e \<Rightarrow>
          if e = FileNotFoundError \<or> e = KeyError then
            (case default_read files self of Inr m \<Rightarrow> Some m | Inl _ \<Rightarrow> None)
          else None)"

text \<open>
  A replay of version \<^verbatim>\<open>0_11_6\<close> on the map \<^verbatim>\<open>spaces_01\<close>, and the session
  that the manifest entry \<^verbatim>\<open>[760, 720, 0.2347]\<close> gives: the binary64 number written
  \<^verbatim>\<open>0.2347\<close> is \<open>8455958660350843 / 2 ^ 55\<close>.
\<close>

definition demo_replay :: "unit replay_data" where
  "demo_replay = \<lparr> game_version = ''0_11_6'', game_map = ''spaces_01'', events = [] \<rparr>"

definition demo_session :: "unit renderer" where
  "demo_session =
     (init demo_replay)\<lparr> minimap_size := 760, space_size := 720,
                         scaling := Finite (8455958660350843 / 36028797018963968) \<rparr>"

definition good_manifest :: pyval where
  "good_manifest =
     PDict [(''spaces_01'',
             PList [PInt 760, PInt 720, PFloat (Finite (8455958660350843 / 36028797018963968))])]"

text \<open>The same map with an integer where the scale belongs.\<close>

definition bad_manifest :: pyval where
  "bad_manifest = PDict [(''spaces_01'', PList [PInt 760, PInt 720, PInt 1])]"

text \<open>
  Three installations. Each has the default manifest with the valid entry. In the
  first the version's manifest holds the invalid entry; in the second the version
  has no package at all; in the third the version's manifest is a JSON array.
\<close>

definition files_bad_versioned :: "string \<Rightarrow> string \<Rightarrow> exn + pyval" where
  "files_bad_versioned pkg name =
     (if pkg = ''renderer.versions.0_11_6.resources.spaces'' \<and> name = ''manifest.json''
        then Inr bad_manifest
      else if pkg = ''renderer.resources.spaces'' \<and> name = ''manifest.json''
        then Inr good_manifest
      else Inl FileNotFoundError)"

definition files_no_version_package :: "string \<Rightarrow> string \<Rightarrow> exn + pyval" where
  "files_no_version_package pkg name =
     (if pkg = ''renderer.resources.spaces''
        then (if name = ''manifest.json'' then Inr good_manifest else Inl FileNotFoundError)
      else Inl ModuleNotFoundError)"

definition files_array_versioned :: "string \<Rightarrow> string \<Rightarrow> exn + pyval" where
  "files_array_versioned pkg name =
     (if pkg = ''renderer.versions.0_11_6.resources.spaces'' \<and> name = ''manifest.json''
        then Inr (PList [])
      else if pkg = ''renderer.resources.spaces'' \<and> name = ''manifest.json''
        then Inr good_manifest
      else Inl FileNotFoundError)"

text \<open>A fourth: the version has its package, but no manifest in it.\<close>

definition files_only_default :: "string \<Rightarrow> string \<Rightarrow> exn + pyval" where
  "files_only_default pkg name =
     (if pkg = ''renderer.resources.spaces'' \<and> name = ''manifest.json''
        then Inr good_manifest
      else Inl FileNotFoundError)"

text \<open>
  A fifth: the default manifest gives the map the entry \<^verbatim>\<open>[760, 720, Infinity]\<close>
  (\<^verbatim>\<open>json.load\<close> reads \<^verbatim>\<open>Infinity\<close>, and a number like \<^verbatim>\<open>1e999\<close>, as the float
  \<open>inf\<close>), and \<open>inf_session\<close> is the session that this entry gives.
\<close>

definition inf_manifest :: pyval where
  "inf_manifest = PDict [(''spaces_01'', PList [PInt 760, PInt 720, PFloat PosInf])]"

definition files_inf_scale :: "string \<Rightarrow> string \<Rightarrow> exn + pyval" where
  "files_inf_scale pkg name =
     (if pkg = ''renderer.resources.spaces'' \<and> name = ''manifest.json''
        then Inr inf_manifest
      else Inl FileNotFoundError)"

definition inf_session :: "unit renderer" where
  "inf_session =
     (init demo_replay)\<lparr> minimap_size := 760, space_size := 720, scaling := PosInf \<rparr>"

text \<open>
  The per-frame composition as the specification words it: the layers are drawn on
  the foreground in the order Capture, Ward, Shot, Torpedo, Ship, Smoke, Plane (Shot
  and Torpedo through a drawing context), and the result is pasted on the
  background at \<open>(40, 40)\<close>. \<open>draw_all\<close> stops at the first exception and also
  returns the image as it is then.
\<close>

definition draw_steps :: "'ev bound_layers \<Rightarrow> ('ev layer \<times> surface) list" where
  "draw_steps ls =
     [(layer_capture ls, AsImage), (layer_ward ls, AsImage),
      (layer_shot ls, AsDraw), (layer_torpedo ls, AsDraw),
      (layer_ship ls, AsImage), (layer_smoke ls, AsImage), (layer_plane ls, AsImage)]"

fun draw_all ::
  "('ev, 'img, 'b) env \<Rightarrow> int \<Rightarrow> ('ev layer \<times> surface) list \<Rightarrow> 'img \<Rightarrow> exn option \<times> 'img" where
  "draw_all env t [] img = (None, img)"
| "draw_all env t (step # rest) img =
     (case layer_draw env (fst step) t (snd step) img of
        Inl e \<Rightarrow> (Some e, img)
      | Inr img' \<Rightarrow> draw_all env t rest img')"

definition compose_frame ::
  "('ev, 'img, 'b) env \<Rightarrow> 'ev bound_layers \<Rightarrow> int \<Rightarrow> 'img \<Rightarrow> 'img \<Rightarrow> exn + 'img" where
  "compose_frame env ls t foreground background =
     (case draw_all env t (draw_steps ls) foreground of
        (Some e, _) \<Rightarrow> Inl e
      | (None, drawn) \<Rightarrow> paste env background drawn (Some (40, 40)) None)"

text \<open>The same steps as statements on the image object \<open>r\<close> of the store.\<close>

fun draws_on ::
  "('ev, 'img, 'b) env \<Rightarrow> int \<Rightarrow> ('ev layer \<times> surface) list \<Rightarrow> nat \<Rightarrow> ('img, 'b) world
   \<Rightarrow> (exn + unit) \<times> ('img, 'b) world" where
  "draws_on env t [] r w = (Inr (), w)"
| "draws_on env t (step # rest) r w =
     (case draw env (fst step) t (Canvas (snd step) r) w of
        (Inl e, w') \<Rightarrow> (Inl e, w')
      | (Inr _, w') \<Rightarrow> draws_on env t rest r w')"

text \<open>The version-specific lookup of one layer name.\<close>

definition versioned_lookup ::
  "(string \<Rightarrow> exn + py_module) \<Rightarrow> 'ev renderer \<Rightarrow> string \<Rightarrow> exn + layer_class" where
  "versioned_lookup mods self layer =
     (case import_module mods ''.layers''
             (package @ ''.versions.'' @ game_version (replay_data self)) of
        Inl e \<Rightarrow> Inl e
      | Inr m \<Rightarrow> getattr m layer)"

fun class_name :: "'ev layer \<Rightarrow> string" where
  "class_name (Layer (LayerClass m n) s) = n"

text \<open>
  The bytes that are sent for the game time \<open>t\<close> are those of the frame composed
  from the two session images.
\<close>

definition frame_for ::
  "('ev, 'img, 'b) env \<Rightarrow> 'ev bound_layers \<Rightarrow> 'img \<Rightarrow> 'img \<Rightarrow> int \<Rightarrow> 'b \<Rightarrow> bool" where
  "frame_for env ls foreground background t b =
     (case compose_frame env ls t foreground background of
        Inl _ \<Rightarrow> False
      | Inr frame \<Rightarrow> b = tobytes env frame)"

text \<open>The arguments \<^verbatim>\<open>start\<close> gives \<^verbatim>\<open>write_frames\<close>, for a background image.\<close>

definition writer_args_of :: "('ev, 'img, 'b) env \<Rightarrow> 'img \<Rightarrow> writer_args" where
  "writer_args_of env background =
     \<lparr> path = ''minimap.mp4'', fps = 20, quality = 9, pix_fmt_in = ''rgba'',
       macro_block_size = 20, frame_size = size_of env background \<rparr>"

text \<open>
  Example installations for the registry: one without any version module, one whose
  version \<^verbatim>\<open>0_11_6\<close> overrides the ship layer only. \<open>default_layer\<close> is an instance
  of a class of the renderer's own \<^verbatim>\<open>layers\<close> package.
\<close>

definition no_versions :: "string \<Rightarrow> exn + py_module" where
  "no_versions name = Inl ModuleNotFoundError"

definition ship_only :: "string \<Rightarrow> exn + py_module" where
  "ship_only name =
     (if name = ''renderer.versions.0_11_6.layers''
        then Inr [(''LayerShip'', LayerClass ''renderer.versions.0_11_6.layers'' ''LayerShip'')]
      else Inl ModuleNotFoundError)"

definition default_layer :: "string \<Rightarrow> string \<Rightarrow> 'ev renderer \<Rightarrow> 'ev layer" where
  "default_layer m n self = Layer (LayerClass (package @ ''.layers.'' @ m) n) self"

text \<open>
  An example environment. An image is the list of what has been done to it; the
  bytes of an image are that list. Every library call succeeds; a layer's
  \<^verbatim>\<open>draw\<close> appends the name of its class, marked with the game time and, on a
  drawing context, with \<open>(draw)\<close>. In \<open>broken_ship_env\<close> the ship layer's
  \<^verbatim>\<open>draw\<close> raises.
\<close>

definition draw_mark :: "'ev layer \<Rightarrow> int \<Rightarrow> surface \<Rightarrow> string" where
  "draw_mark l t s =
     class_name l @ (if s = AsDraw then ''(draw)'' else '''') @ replicate (nat t) (CHR ''+'')"

definition demo_env :: "(unit, string list, string list) env" where
  "demo_env =
     \<lparr> open_json = files_only_default,
       load_image = (\<lambda>pkg name. Inr [name]),
       modules = no_versions,
       draw_grid = [''grid''],
       size_of = (\<lambda>img. (840, 840)),
       resize = (\<lambda>img sz. img @ [''resized'']),
       paste = (\<lambda>dst src box mask. Inr (dst @ ''paste'' # src)),
       alpha_composite = (\<lambda>a b. Inr (a @ ''over'' # b)),
       layer_draw = (\<lambda>l t s img. Inr (img @ [draw_mark l t s])),
       tobytes = (\<lambda>img. img),
       ffmpeg_start = (\<lambda>a. None),
       ffmpeg_write = (\<lambda>a fs b. None) \<rparr>"

definition broken_ship_env :: "(unit, string list, string list) env" where
  "broken_ship_env =
     demo_env\<lparr> layer_draw :=
       (\<lambda>l t s img. if class_name l = ''LayerShipBase'' then Inl (OtherError ''draw failed'')
                     else Inr (img @ [draw_mark l t s])) \<rparr>"

definition two_frames :: "unit replay_data" where
  "two_frames =
     \<lparr> game_version = ''0_11_6'', game_map = ''spaces_01'', events = [(0, ()), (1, ())] \<rparr>"

definition empty_world :: "(string list, string list) world" where
  "empty_world = \<lparr> images = [], writer = None \<rparr>"

text \<open>
  What \<^verbatim>\<open>_load_map\<close> leaves in that environment, from the empty store: the
  background is object 0, the foreground object 1. \<open>demo_layers\<close> are the default
  layers of that session, and \<open>demo_frame t\<close> is the frame composed from them.
\<close>

definition loaded_session :: "unit renderer" where
  "loaded_session =
     (init two_frames)\<lparr> minimap_size := 760, space_size := 720,
                        scaling := Finite (8455958660350843 / 36028797018963968),
                        minimap_bg := Some 0, minimap_image := Some 1 \<rparr>"

definition background_image :: "string list" where
  "background_image = [''minimap_water.png'', ''resized'', ''paste'', ''minimap_grid_legends.png'']"

definition foreground_image :: "string list" where
  "foreground_image = [''minimap_water.png'', ''over'', ''grid'', ''over'', ''minimap.png'']"

definition loaded_world :: "(string list, string list) world" where
  "loaded_world = \<lparr> images = [background_image, foreground_image], writer = None \<rparr>"

definition demo_layers :: "unit bound_layers" where
  "demo_layers =
     \<lparr> layer_ship = default_layer ''ship'' ''LayerShipBase'' loaded_session,
       layer_shot = default_layer ''shot'' ''LayerShotBase'' loaded_session,
       layer_torpedo = default_layer ''torpedo'' ''LayerTorpedoBase'' loaded_session,
       layer_smoke = default_layer ''smoke'' ''LayerSmokeBase'' loaded_session,
       layer_plane = default_layer ''plane'' ''LayerPlaneBase'' loaded_session,
       layer_ward = default_layer ''ward'' ''LayerWardBase'' loaded_session,
       layer_capture = default_layer ''capture'' ''LayerCaptureBase'' loaded_session \<rparr>"

definition demo_frame :: "int \<Rightarrow> string list" where
  "demo_frame t =
     background_image @ ''paste'' #
       (foreground_image @ map (\<lambda>step. draw_mark (fst step) t (snd step)) (draw_steps demo_layers))"

definition demo_writer :: "string list video_writer" where
  "demo_writer =
     \<lparr> args = \<lparr> path = ''minimap.mp4'', fps = 20, quality = 9, pix_fmt_in = ''rgba'',
                macro_block_size = 20, frame_size = (840, 840) \<rparr>,
       status = Running, sent = [] \<rparr>"

section \<open>Facts about binary64 rounding\<close>

lemma bitlen_0: "bitlen 0 = 0"
  by (simp add: bitlen.simps)

lemma bitlen_1: "bitlen 1 = Suc 0" "bitlen (Suc 0) = Suc 0"
  by (simp_all add: bitlen.simps)

lemma bitlen_numeral: "bitlen (numeral k) = Suc (bitlen (numeral k div 2))"
  by (subst bitlen.simps) simp

lemma floor_rat_numeral_div: "\<lfloor>numeral a / numeral b :: rat\<rfloor> = numeral a div numeral b"
  using floor_divide_of_int_eq [of "numeral a" "numeral b", where ?'a = rat] by simp

lemma floor_rat_neg_numeral_div:
  "\<lfloor>- (numeral a / numeral b) :: rat\<rfloor> = - numeral a div numeral b"
  using floor_divide_of_int_eq [of "- numeral a" "numeral b", where ?'a = rat] by simp

lemmas eval_double = round_double_def ilog2_def bitlen_0 bitlen_1 bitlen_numeral pow2_def
  round_half_even_def Let_def floor_rat_numeral_div floor_rat_neg_numeral_div ceiling_def

lemma round_double_0: "round_double 0 = Finite 0"
  by (simp add: round_double_def)

lemma round_double_380: "round_double 380 = Finite 380"
  by (simp add: eval_double)

lemma truediv_760: "truediv_int 760 2 = Inr (Finite 380)"
  by (simp add: truediv_int_def round_double_380)

lemma rhe_int: "round_half_even (of_int n) = n"
  by (simp add: round_half_even_def)

text \<open>Rounding half to even is odd: it commutes with negation.\<close>

lemma rhe_minus: "round_half_even (- x) = - round_half_even x"
proof (cases "x = of_int \<lfloor>x\<rfloor>")
  case True
  then obtain n where "x = of_int n" ..
  then show ?thesis using rhe_int [of "- n"] rhe_int [of n] by simp
next
  case False
  then have lt: "of_int \<lfloor>x\<rfloor> < x" by linarith
  have up: "x < of_int \<lfloor>x\<rfloor> + 1" by linarith
  have a: "of_int (- \<lfloor>x\<rfloor> - 1) \<le> - x" using up by simp
  have b: "- x < of_int (- \<lfloor>x\<rfloor> - 1) + 1" using lt by simp
  have fl: "\<lfloor>- x\<rfloor> = - \<lfloor>x\<rfloor> - 1"
    using a b by (rule floor_unique)
  have ev: "even (- \<lfloor>x\<rfloor> - 1) = odd \<lfloor>x\<rfloor>" by simp
  show ?thesis
    unfolding round_half_even_def Let_def fl ev
    using lt up by (simp; linarith)
qed

text \<open>An even integer passes through it.\<close>

lemma rhe_add_even: "round_half_even (x + 2 * of_int k) = round_half_even x + 2 * k"
proof -
  have "x + 2 * of_int k = x + of_int (2 * k)" by simp
  then have f: "\<lfloor>x + 2 * of_int k\<rfloor> = \<lfloor>x\<rfloor> + 2 * k"
    by (metis floor_add_int)
  show ?thesis
    unfolding round_half_even_def Let_def f by simp
qed

lemma rhe_le_int: "x \<le> of_int n \<Longrightarrow> round_half_even x \<le> n"
proof (cases "x = of_int n")
  case True
  then show ?thesis by (simp add: rhe_int)
next
  case False
  assume "x \<le> of_int n"
  with False have "x < of_int n" by simp
  then have "\<lfloor>x\<rfloor> < n" by (simp add: floor_less_iff)
  then show ?thesis by (simp add: round_half_even_def Let_def)
qed

lemma rhe_ge_int: "of_int n \<le> x \<Longrightarrow> n \<le> round_half_even x"
proof -
  assume "of_int n \<le> x"
  then have "n \<le> \<lfloor>x\<rfloor>" by (simp add: le_floor_iff)
  then show ?thesis by (simp add: round_half_even_def Let_def)
qed

lemma mirror_sum: "round_half_even (380 - a) + round_half_even (380 + a) = 760"
proof -
  have 1: "round_half_even (a + 2 * of_int 190) = round_half_even a + 2 * 190"
    by (rule rhe_add_even)
  have 2: "round_half_even (- a + 2 * of_int 190) = round_half_even (- a) + 2 * 190"
    by (rule rhe_add_even)
  have 3: "380 - a = - a + 2 * of_int 190" by simp
  have 4: "380 + a = a + 2 * of_int 190" by simp
  show ?thesis unfolding 3 4 1 2 by (simp add: rhe_minus)
qed

lemma ilog2_minus: "ilog2 (- x) = ilog2 x"
  by (simp add: ilog2_def)

lemma round_double_minus: "round_double (- x) = fneg (round_double x)"
  by (simp add: round_double_def ilog2_minus rhe_minus Let_def)

lemma fmul_fneg: "fmul (fneg a) b = fneg (fmul a b)"
  by (cases a; cases b) (simp_all add: round_double_minus)

lemma float_of_int_minus:
  "float_of_int (- i) = (case float_of_int i of Inl e \<Rightarrow> Inl e | Inr f \<Rightarrow> Inr (fneg f))"
  by (cases "round_double (of_int i)") (simp_all add: float_of_int_def round_double_minus)

lemma mul_float_neg:
  "mul_float (neg y) s = (case mul_float y s of Inl e \<Rightarrow> Inl e | Inr p \<Rightarrow> Inr (fneg p))"
proof (cases y)
  case (NInt i)
  then show ?thesis
    by (cases "float_of_int i") (simp_all add: mul_float_def neg_def float_of_int_minus fmul_fneg)
next
  case (NFloat f)
  then show ?thesis by (simp add: mul_float_def neg_def fmul_fneg)
qed

lemma fneg_fneg: "fneg (fneg f) = f"
  by (cases f) simp_all

lemma neg_neg: "neg (neg y) = y"
  by (cases y) (simp_all add: neg_def fneg_fneg)

text \<open>A number of \<open>k + 1\<close> binary digits lies between \<open>2 ^ k\<close> and \<open>2 ^ (k + 1)\<close>.\<close>

lemma bitlen_range: "2 ^ k \<le> n \<Longrightarrow> n < 2 ^ Suc k \<Longrightarrow> bitlen n = Suc k"
proof (induction k arbitrary: n)
  case 0
  then have "n = 1" by simp
  then show ?case by (simp add: bitlen.simps)
next
  case (Suc k)
  from Suc.prems have 1: "2 ^ k \<le> n div 2" by simp
  from Suc.prems have 2: "n div 2 < 2 ^ Suc k" by simp
  from Suc.prems have 3: "n \<noteq> 0" by auto
  have "bitlen n = Suc (bitlen (n div 2))" using 3 by (subst bitlen.simps) simp
  with Suc.IH [OF 1 2] show ?case by simp
qed

lemma ilog2_8:
  assumes "256 \<le> x" "x < 512"
  shows "ilog2 x = 8"
proof -
  have a: "\<bar>x\<bar> = x" using assms by simp
  define m where "m = \<lfloor>x\<rfloor>"
  have f1: "256 \<le> m" unfolding m_def using assms(1) by (simp add: le_floor_iff)
  have f2: "m < 512" unfolding m_def using assms(2) by (simp add: floor_less_iff)
  have n1: "(2::nat) ^ 8 \<le> nat m" using f1 by simp
  have n2: "nat m < (2::nat) ^ Suc 8" using f1 f2 by simp
  have "bitlen (nat m) = Suc 8" using n1 n2 by (rule bitlen_range)
  then have "bitlen (nat \<lfloor>x\<rfloor>) = Suc 8" by (simp add: m_def)
  then show ?thesis using assms(1) by (simp add: ilog2_def a)
qed

lemma pow2_m44: "pow2 (- 44) = 1 / 17592186044416"
  by (simp add: pow2_def)

lemma pow2_1024_big: "x \<le> 512 \<Longrightarrow> \<not> pow2 1024 \<le> x"
proof -
  assume "x \<le> 512"
  moreover have "(512::rat) = 2 ^ 9" by simp
  moreover have "(2::rat) ^ 9 < 2 ^ 1024" by (rule power_strict_increasing) simp_all
  moreover have "pow2 1024 = 2 ^ 1024" by (simp add: pow2_def)
  ultimately show ?thesis by linarith
qed

text \<open>
  Between 256 and 512 the binary64 numbers are the multiples of \<open>2 ^ (- 44)\<close>, and
  380 is one of them: a sum \<open>380 + a\<close> in that range is rounded as \<open>a\<close> is.
\<close>

lemma round_double_near_380:
  assumes "\<bar>a\<bar> \<le> 124"
  shows "round_double (380 + a)
         = Finite (380 + of_int (round_half_even (a * 17592186044416)) / 17592186044416)"
proof -
  define g where "g = round_half_even (a * 17592186044416)"
  have lo: "256 \<le> 380 + a" and hi: "380 + a < 512" using assms by linarith+
  have il: "ilog2 (380 + a) = 8" using lo hi by (rule ilog2_8)
  have sc: "(380 + a) / pow2 (- 44) = a * 17592186044416 + 2 * of_int 3342515348439040"
    by (simp add: pow2_m44 algebra_simps)
  have rh: "round_half_even ((380 + a) / pow2 (- 44)) = g + 2 * 3342515348439040"
    unfolding sc g_def by (rule rhe_add_even)
  have "a * 17592186044416 \<le> of_int 2181431069507584" using assms by simp
  then have gu: "g \<le> 2181431069507584" unfolding g_def by (rule rhe_le_int)
  have "of_int (- 2181431069507584) \<le> a * 17592186044416" using assms by simp
  then have gl: "- 2181431069507584 \<le> g" unfolding g_def by (rule rhe_ge_int)
  define r :: rat where "r = of_int (g + 2 * 3342515348439040) * pow2 (- 44)"
  have r: "r = 380 + of_int g / 17592186044416" by (simp add: r_def pow2_m44)
  have gu': "(of_int g :: rat) \<le> 2181431069507584" using gu by linarith
  have gl': "- 2181431069507584 \<le> (of_int g :: rat)" using gl by linarith
  have ru: "r \<le> 504" unfolding r using gu' by simp
  have rl: "256 \<le> r" unfolding r using gl' by simp
  have "\<bar>r\<bar> \<le> 512" using ru rl by simp
  then have big: "\<not> pow2 1024 \<le> \<bar>r\<bar>" by (rule pow2_1024_big)
  have nz: "380 + a \<noteq> 0" using lo by linarith
  have q: "max (ilog2 (380 + a)) (- 1022) - 52 = - 44" by (simp add: il)
  have "round_double (380 + a) = Finite r"
    unfolding round_double_def Let_def q rh r_def [symmetric] using nz big by simp
  then show ?thesis by (simp add: r g_def)
qed

section \<open>Scaling coordinates: the claims\<close>

lemma scale_axis_zero:
  assumes "scaling self = Finite s" "minimap_size self = 760"
  shows "scale_axis self (NInt 0) = Inr 380" "scale_axis self (NFloat (Finite 0)) = Inr 380"
  using assms
  by (simp_all add: scale_axis_def mul_float_def float_of_int_def truediv_760 py_round_def
      round_double_0 round_double_380 rhe_int [of 380, simplified])

lemma scale_axis_of_product:
  assumes "minimap_size self = 760" "mul_float v (scaling self) = Inr (Finite a)"
  shows "scale_axis self v = py_round (round_double (a + 380))"
  using assms by (simp add: scale_axis_def truediv_760)

text \<open>
  \<^verbatim>\<open>get_scaled\<close> against the transform on exact numbers: a rounding never gives a
  NaN, a product or a sum beyond the binary64 range gives an infinity, and
  \<^verbatim>\<open>round\<close> of an infinity is an OverflowError.
\<close>

lemma round_double_not_nan: "round_double x \<noteq> NaN"
  by (simp add: round_double_def Let_def)

lemma nearest_cases:
  "nearest x = None \<longleftrightarrow> (round_double x = PosInf \<or> round_double x = NegInf)"
  "nearest x = Some r \<longleftrightarrow> round_double x = Finite r"
  using round_double_not_nan [of x]
  by (cases "round_double x"; simp add: nearest_def)+

lemma world_value_mul:
  assumes "world_value v = Some a"
  shows "mul_float v (Finite s) = Inr (round_double (a * s))"
proof (cases v)
  case (NInt i)
  with assms have "round_double (of_int i) = Finite a"
    by (simp add: world_value_def nearest_cases)
  then show ?thesis using NInt by (simp add: mul_float_def float_of_int_def)
next
  case (NFloat f)
  with assms have "f = Finite a" by (cases f) (simp_all add: world_value_def)
  then show ?thesis using NFloat by (simp add: mul_float_def)
qed

lemma world_value_neg:
  assumes "world_value v = Some a"
  shows "world_value (neg v) = Some (- a)"
proof (cases v)
  case (NInt i)
  with assms have "round_double (of_int i) = Finite a"
    by (simp add: world_value_def nearest_cases)
  then have "round_double (of_int (- i)) = Finite (- a)"
    using round_double_minus [of "of_int i"] by simp
  then show ?thesis using NInt by (simp add: world_value_def neg_def nearest_cases)
next
  case (NFloat f)
  with assms have "f = Finite a" by (cases f) (simp_all add: world_value_def)
  then show ?thesis using NFloat by (simp add: world_value_def neg_def)
qed

lemma scale_axis_pixel:
  assumes "scaling self = Finite s" "world_value v = Some a"
  shows "scale_axis self v =
           (case pixel s (minimap_size self) a of None \<Rightarrow> Inl OverflowError | Some p \<Rightarrow> Inr p)"
proof -
  have m: "mul_float v (scaling self) = Inr (round_double (a * s))"
    using assms by (simp add: world_value_mul)
  show ?thesis
    using round_double_not_nan [of "a * s"]
      round_double_not_nan [of "of_int (minimap_size self) / 2"]
    unfolding scale_axis_def m pixel_def nearest_def truediv_int_def
    apply (cases "round_double (a * s)"; cases "round_double (of_int (minimap_size self) / 2)")
    apply (simp_all add: py_round_def)
    subgoal for p h
      using round_double_not_nan [of "p + h"]
      by (cases "round_double (p + h)") simp_all
    done
qed

lemma get_scaled_to_pixels:
  assumes "scaling self = Finite s" "world_value x = Some a" "world_value y = Some b"
  shows "get_scaled self (x, y) flip_y =
           (case to_pixels s (minimap_size self) (a, b) flip_y of
              None \<Rightarrow> Inl OverflowError
            | Some p \<Rightarrow> Inr p)"
proof -
  have y: "world_value (if flip_y then neg y else y) = Some (if flip_y then - b else b)"
    using assms(3) by (simp add: world_value_neg)
  show ?thesis
    unfolding get_scaled_def Let_def fst_conv snd_conv to_pixels_def
      scale_axis_pixel [OF assms(1) assms(2)] scale_axis_pixel [OF assms(1) y]
    by (simp split: option.splits)
qed


lemma rhe_error: "\<bar>of_int (round_half_even t) - t\<bar> \<le> 1 / 2"
proof -
  have 1: "of_int \<lfloor>t\<rfloor> \<le> t" and 2: "t < of_int \<lfloor>t\<rfloor> + 1" by linarith+
  show ?thesis
    unfolding round_half_even_def Let_def using 1 2 by (simp; linarith)
qed

lemma pow2_powi: "pow2 k = 2 powi k"
  by (simp add: pow2_def power_int_def inverse_eq_divide power_one_over)

lemma pow2_pos: "0 < pow2 k"
  by (simp add: pow2_powi)

lemma pow2_mono: "a \<le> b \<Longrightarrow> pow2 a \<le> pow2 b"
  by (simp add: pow2_powi power_int_increasing)

lemma bitlen_le: "n < 2 ^ k \<Longrightarrow> bitlen n \<le> k"
proof (induction k arbitrary: n)
  case 0
  then show ?case by (simp add: bitlen.simps)
next
  case (Suc k)
  from Suc.prems have "n div 2 < 2 ^ k" by simp
  from Suc.IH [OF this] show ?case by (subst bitlen.simps) simp
qed

lemma ilog2_le_10:
  assumes "\<bar>x\<bar> < 2048"
  shows "ilog2 x \<le> 10"
proof (cases "1 \<le> \<bar>x\<bar>")
  case True
  have "\<lfloor>\<bar>x\<bar>\<rfloor> < 2048" using assms by (simp add: floor_less_iff)
  then have "nat \<lfloor>\<bar>x\<bar>\<rfloor> < 2048" by arith
  then have "nat \<lfloor>\<bar>x\<bar>\<rfloor> < 2 ^ 11" by simp
  then have "bitlen (nat \<lfloor>\<bar>x\<bar>\<rfloor>) \<le> 11" by (rule bitlen_le)
  then show ?thesis using True by (simp add: ilog2_def)
next
  case False
  then show ?thesis by (simp add: ilog2_def)
qed

lemma pow2_1024_gt: "x \<le> 4096 \<Longrightarrow> \<not> pow2 1024 \<le> x"
proof -
  assume "x \<le> 4096"
  moreover have "(4096::rat) = 2 ^ 12" by simp
  moreover have "(2::rat) ^ 12 < 2 ^ 1024" by (rule power_strict_increasing) simp_all
  moreover have "pow2 1024 = 2 ^ 1024" by (simp add: pow2_def)
  ultimately show ?thesis by linarith
qed

text \<open>
  Below 2048 the binary64 numbers are at most \<open>2 ^ (- 42)\<close> apart: rounding moves a
  number by at most \<open>2 ^ (- 43)\<close>.
\<close>

lemma round_double_error:
  assumes "\<bar>x\<bar> < 2048"
  shows "\<exists>p. round_double x = Finite p \<and> \<bar>p - x\<bar> \<le> 1 / 2 ^ 43"
proof (cases "x = 0")
  case True
  then show ?thesis by (simp add: round_double_def)
next
  case False
  define q where "q = max (ilog2 x) (- 1022) - 52"
  define t where "t = x / pow2 q"
  define r :: rat where "r = of_int (round_half_even t) * pow2 q"
  have "q \<le> - 42" using ilog2_le_10 [OF assms] by (simp add: q_def)
  then have "pow2 q \<le> pow2 (- 42)" by (rule pow2_mono)
  then have u: "pow2 q \<le> 1 / 2 ^ 42" by (simp add: pow2_def)
  have pos: "0 < pow2 q" by (rule pow2_pos)
  have x: "x = t * pow2 q" using pos by (simp add: t_def)
  have "r - x = (of_int (round_half_even t) - t) * pow2 q"
    unfolding r_def by (subst x) (simp add: algebra_simps)
  then have "\<bar>r - x\<bar> = \<bar>of_int (round_half_even t) - t\<bar> * pow2 q"
    using pos by (simp add: abs_mult)
  also have "\<dots> \<le> (1 / 2) * pow2 q"
    using rhe_error [of t] pos by (simp add: mult_right_mono)
  also have "\<dots> \<le> (1 / 2) * (1 / 2 ^ 42)" using u by simp
  also have "\<dots> = 1 / 2 ^ 43" by simp
  finally have e: "\<bar>r - x\<bar> \<le> 1 / 2 ^ 43" .
  have "(1::rat) / 2 ^ 43 \<le> 1" by simp
  with e assms have "\<bar>r\<bar> \<le> 4096" by linarith
  then have big: "\<not> pow2 1024 \<le> \<bar>r\<bar>" by (rule pow2_1024_gt)
  have "round_double x = Finite r"
    unfolding round_double_def Let_def q_def [symmetric] t_def [symmetric] r_def [symmetric]
    using False big by simp
  with e show ?thesis by blast
qed

lemma scale_axis_accuracy:
  assumes sc: "scaling self = Finite s" and sz: "minimap_size self = 760"
    and v: "world_value v = Some a" and rng: "\<bar>a * s\<bar> \<le> 1000"
  shows "\<exists>px. scale_axis self v = Inr px \<and> \<bar>of_int px - (a * s + 380)\<bar> \<le> 1 / 2 + 1 / 2 ^ 42"
proof -
  have "\<bar>a * s\<bar> < 2048" using rng by linarith
  from round_double_error [OF this] obtain p where
    p: "round_double (a * s) = Finite p" and pe: "\<bar>p - a * s\<bar> \<le> 1 / 2 ^ 43" by blast
  have m: "mul_float v (scaling self) = Inr (Finite p)"
    using world_value_mul [OF v, of s] by (simp add: sc p)
  have "(1::rat) / 2 ^ 43 \<le> 1" by simp
  with pe rng have "\<bar>p + 380\<bar> < 2048" by linarith
  from round_double_error [OF this] obtain q where
    q: "round_double (p + 380) = Finite q" and qe: "\<bar>q - (p + 380)\<bar> \<le> 1 / 2 ^ 43" by blast
  have r: "scale_axis self v = Inr (round_half_even q)"
    unfolding scale_axis_of_product [OF sz m] q by (simp add: py_round_def)
  have "(1::rat) / 2 ^ 43 + 1 / 2 ^ 43 = 1 / 2 ^ 42" by simp
  with rhe_error [of q] pe qe
  have "\<bar>of_int (round_half_even q) - (a * s + 380)\<bar> \<le> 1 / 2 + 1 / 2 ^ 42" by linarith
  with r show ?thesis by blast
qed


lemma pow2_neg_nat: "pow2 (- int m) = 1 / 2 ^ m"
  by (cases "m = 0") (simp_all add: pow2_def)

lemma round_double_2_53: "round_double 9007199254740992 = Finite 9007199254740992"
  by (simp add: eval_double)

text \<open>An \<^verbatim>\<open>int\<close> of magnitude at most \<open>2 ^ 53\<close> is a binary64 number.\<close>

lemma round_double_int:
  assumes "\<bar>i\<bar> \<le> 9007199254740992"
  shows "round_double (of_int i) = Finite (of_int i)"
proof -
  consider "i = 0" | "i = 9007199254740992" | "i = - 9007199254740992"
    | "i \<noteq> 0" "\<bar>i\<bar> < 9007199254740992"
    using assms by linarith
  then show ?thesis
  proof cases
    case 1
    then show ?thesis by (simp add: round_double_0)
  next
    case 2
    then show ?thesis using round_double_2_53 by simp
  next
    case 3
    then show ?thesis
      using round_double_minus [of 9007199254740992] round_double_2_53 by simp
  next
    case 4
    define n where "n = nat \<bar>i\<bar>"
    define k where "k = bitlen n"
    have n0: "n \<noteq> 0" using 4(1) by (simp add: n_def)
    have "n < 2 ^ 53" using 4(2) by (simp add: n_def)
    then have k53: "k \<le> 53" unfolding k_def by (rule bitlen_le)
    have k1: "1 \<le> k" unfolding k_def using n0 by (subst bitlen.simps) simp
    define m where "m = 53 - k"
    have ab: "\<bar>of_int i :: rat\<bar> = of_int \<bar>i\<bar>" by simp
    have "1 \<le> \<bar>i\<bar>" using 4(1) by simp
    then have "(of_int 1 :: rat) \<le> of_int \<bar>i\<bar>" by (simp only: of_int_le_iff)
    then have ge1: "(1::rat) \<le> \<bar>of_int i\<bar>" unfolding ab by simp
    have fl: "nat \<lfloor>\<bar>of_int i :: rat\<bar>\<rfloor> = n"
      unfolding ab n_def by (simp only: floor_of_int)
    have il: "ilog2 (of_int i) = int k - 1"
      unfolding ilog2_def fl k_def using ge1 by simp
    have q: "max (ilog2 (of_int i)) (- 1022) - 52 = - int m"
      unfolding il m_def using k1 k53 by simp
    have t: "(of_int i :: rat) / pow2 (- int m) = of_int (i * 2 ^ m)"
      by (simp add: pow2_neg_nat)
    have r: "(of_int (i * 2 ^ m) :: rat) * pow2 (- int m) = of_int i"
      by (simp add: pow2_neg_nat)
    have "(of_int \<bar>i\<bar> :: rat) < of_int 9007199254740992" using 4(2) by (simp only: of_int_less_iff)
    then have "\<bar>of_int i :: rat\<bar> < 2 ^ 53" unfolding ab by simp
    moreover have "(2::rat) ^ 53 < 2 ^ 1024" by (rule power_strict_increasing) simp_all
    moreover have "pow2 1024 = 2 ^ 1024" by (simp add: pow2_def)
    ultimately have big: "\<not> pow2 1024 \<le> \<bar>of_int i :: rat\<bar>" by linarith
    have nz: "(of_int i :: rat) \<noteq> 0" using 4(1) by simp
    show ?thesis
      unfolding round_double_def Let_def q t rhe_int r using nz big by simp
  qed
qed

lemma world_value_int: "\<bar>i\<bar> \<le> 9007199254740992 \<Longrightarrow> world_value (NInt i) = Some (of_int i)"
  by (simp add: world_value_def nearest_def round_double_int)

text \<open>
  The arithmetic of the example below: the world coordinate
  \<open>y = 568.8112484022154\<close> is the binary64 number \<open>1250829163256037 / 2 ^ 41\<close>; at the
  scale \<open>0.2347\<close> its product is rounded to \<open>133.49999999999994\<close>; \<open>380\<close> plus that is
  rounded to \<open>513.5\<close> exactly, \<open>380\<close> minus that to \<open>246.50000000000006\<close>.
\<close>

lemma rd_prod:
  "round_double (1250829163256037 / 2199023255552 * (8455958660350843 / 36028797018963968))
   = Finite (2348556836929535 / 17592186044416)"
  by (simp add: eval_double)

lemma rd_low:
  "round_double (- (2348556836929535 / 17592186044416) + 380)
   = Finite (4336473859948545 / 17592186044416)"
  by (simp add: eval_double)

lemma rd_high:
  "round_double (2348556836929535 / 17592186044416 + 380) = Finite (1027 / 2)"
  by (simp add: eval_double)

lemma rhe_low: "round_half_even (4336473859948545 / 17592186044416) = 247"
  by (simp add: eval_double)

lemma rhe_high: "round_half_even (1027 / 2) = 514"
  by (simp add: eval_double)

text \<open>
  C6 as stated fails: in the session of the manifest entry \<open>[760, 720, 0.2347]\<close>,
  the points \<open>(0, y)\<close> and \<open>(0, - y)\<close> with \<open>y = 568.8112484022154\<close> get the rows 247
  and 514, which sum to 761.
\<close>

theorem mirror_counterexample:
  "get_scaled demo_session (NInt 0, NFloat (Finite (1250829163256037 / 2199023255552))) True
     = Inr (380, 247)
   \<and> get_scaled demo_session (NInt 0, neg (NFloat (Finite (1250829163256037 / 2199023255552)))) True
     = Inr (380, 514)
   \<and> (247 :: int) + 514 \<noteq> minimap_size demo_session"
proof -
  have sz: "minimap_size demo_session = 760" by (simp add: demo_session_def)
  have sc: "scaling demo_session = Finite (8455958660350843 / 36028797018963968)"
    by (simp add: demo_session_def)
  have x: "scale_axis demo_session (NInt 0) = Inr 380"
    using sc sz by (rule scale_axis_zero(1))
  have p: "mul_float (NFloat (Finite (1250829163256037 / 2199023255552))) (scaling demo_session)
           = Inr (Finite (2348556836929535 / 17592186044416))"
    unfolding mul_float_def sc by (simp only: number.case fmul.simps rd_prod)
  have n: "mul_float (neg (NFloat (Finite (1250829163256037 / 2199023255552)))) (scaling demo_session)
           = Inr (Finite (- (2348556836929535 / 17592186044416)))"
    by (simp add: mul_float_neg p)
  have hi: "scale_axis demo_session (NFloat (Finite (1250829163256037 / 2199023255552))) = Inr 514"
    unfolding scale_axis_of_product [OF sz p] rd_high py_round_def by (simp add: rhe_high)
  have lo: "scale_axis demo_session (neg (NFloat (Finite (1250829163256037 / 2199023255552))))
            = Inr 247"
    unfolding scale_axis_of_product [OF sz n] rd_low py_round_def by (simp add: rhe_low)
  show ?thesis
    unfolding get_scaled_def Let_def fst_conv snd_conv neg_neg if_True x hi lo
    by (simp add: sz)
qed

text \<open>
  C6, amended. For the size 760, a point \<open>(x, y)\<close> whose x axis scales without an
  exception and whose product \<open>y * scale\<close> is a finite float \<open>a\<close> of magnitude at most
  124 (so that both rows lie between 256 and 504, where \<open>380 + a\<close> and \<open>380 - a\<close> are
  rounded on the same grid): \<open>(x, y)\<close> and \<open>(x, - y)\<close> get the same column, and their
  rows sum to the size.
\<close>

theorem get_scaled_mirror:
  assumes sz: "minimap_size self = 760"
    and x: "scale_axis self x = Inr px"
    and y: "mul_float y (scaling self) = Inr (Finite a)"
    and rng: "\<bar>a\<bar> \<le> 124"
  shows "\<exists>py qy. get_scaled self (x, y) True = Inr (px, py)
           \<and> get_scaled self (x, neg y) True = Inr (px, qy)
           \<and> py + qy = minimap_size self"
proof -
  define g :: rat where "g = of_int (round_half_even (a * 17592186044416)) / 17592186044416"
  have n: "mul_float (neg y) (scaling self) = Inr (Finite (- a))"
    by (simp add: mul_float_neg y)
  have up: "round_double (a + 380) = Finite (380 + g)"
    using round_double_near_380 [OF rng] by (simp add: g_def add.commute)
  have "\<bar>- a\<bar> \<le> 124" using rng by simp
  from round_double_near_380 [OF this]
  have dn: "round_double (- a + 380) = Finite (380 - g)"
    by (simp add: g_def add.commute rhe_minus)
  have hi: "scale_axis self y = Inr (round_half_even (380 + g))"
    unfolding scale_axis_of_product [OF sz y] up py_round_def by simp
  have lo: "scale_axis self (neg y) = Inr (round_half_even (380 - g))"
    unfolding scale_axis_of_product [OF sz n] dn py_round_def by simp
  have 1: "get_scaled self (x, y) True = Inr (px, round_half_even (380 - g))"
    unfolding get_scaled_def Let_def fst_conv snd_conv if_True x lo by simp
  have 2: "get_scaled self (x, neg y) True = Inr (px, round_half_even (380 + g))"
    unfolding get_scaled_def Let_def fst_conv snd_conv if_True neg_neg x hi by simp
  from 1 2 mirror_sum [of g] sz show ?thesis by simp
qed

lemma rd_100: "round_double 100 = Finite 100"
  by (simp add: eval_double)

lemma rd_prod_100:
  "round_double (100 * (8455958660350843 / 36028797018963968))
   = Finite (825777212924887 / 35184372088832)"
  by (simp add: eval_double)

theorem get_scaled_mirror_witness:
  "minimap_size demo_session = 760
   \<and> scale_axis demo_session (NInt 0) = Inr 380
   \<and> mul_float (NInt 100) (scaling demo_session) = Inr (Finite (825777212924887 / 35184372088832))
   \<and> \<bar>825777212924887 / 35184372088832 :: rat\<bar> \<le> 124
   \<and> (\<exists>py qy. get_scaled demo_session (NInt 0, NInt 100) True = Inr (380, py)
          \<and> get_scaled demo_session (NInt 0, neg (NInt 100)) True = Inr (380, qy)
          \<and> py + qy = minimap_size demo_session)"
proof -
  have sz: "minimap_size demo_session = 760" by (simp add: demo_session_def)
  have sc: "scaling demo_session = Finite (8455958660350843 / 36028797018963968)"
    by (simp add: demo_session_def)
  have x: "scale_axis demo_session (NInt 0) = Inr 380"
    using sc sz by (rule scale_axis_zero(1))
  have f: "float_of_int 100 = Inr (Finite 100)"
    unfolding float_of_int_def by (simp add: rd_100)
  have y: "mul_float (NInt 100) (scaling demo_session)
           = Inr (Finite (825777212924887 / 35184372088832))"
    unfolding mul_float_def sc number.case f by (simp only: sum.case fmul.simps rd_prod_100)
  have rng: "\<bar>825777212924887 / 35184372088832 :: rat\<bar> \<le> 124" by simp
  from get_scaled_mirror [OF sz x y rng] sz x y rng show ?thesis by blast
qed

section \<open>Loading the map manifest: the claims\<close>

lemma unpack3_not_caught: "unpack3 v = Inl e \<Longrightarrow> e = TypeError \<or> e = ValueError"
  by (auto simp: unpack3_def iterate_def split: pyval.splits list.splits)

lemma good_entry_ok:
  "entry_ok (PInt 760, PInt 720, PFloat (Finite (8455958660350843 / 36028797018963968)))"
  by (simp add: entry_ok_def isinstance_int_def isinstance_float_def int_value_def)

lemma good_manifest_entry:
  "getitem good_manifest ''spaces_01''
   = Inr (PList [PInt 760, PInt 720, PFloat (Finite (8455958660350843 / 36028797018963968))])"
  by (simp add: getitem_def good_manifest_def)

lemma unpack3_good:
  "unpack3 (PList [PInt 760, PInt 720, PFloat (Finite (8455958660350843 / 36028797018963968))])
   = Inr (PInt 760, PInt 720, PFloat (Finite (8455958660350843 / 36028797018963968)))"
  by (simp add: unpack3_def iterate_def)

lemma demo_paths:
  "versioned_spaces (game_version (replay_data (init demo_replay)))
   = ''renderer.versions.0_11_6.resources.spaces''"
  "default_spaces (init demo_replay) = ''renderer.resources.spaces''"
  "game_map (replay_data (init demo_replay)) = ''spaces_01''"
  by (simp_all add: versioned_spaces_def default_spaces_def init_def demo_replay_def package_def)

text \<open>
  C10. When the version's manifest is read and holds the map, but the entry is not
  valid (it does not unpack into three values, or an assertion fails), the resolver
  raises MapManifestLoadError, caused by that entry's exception. Nothing is assumed
  of the default manifest: whatever it holds, a valid entry for the map included,
  it is not consulted.
\<close>

theorem invalid_versioned_entry_raises:
  assumes "files (versioned_spaces (game_version (replay_data self))) ''manifest.json'' = Inr j"
    and "getitem j (game_map (replay_data self)) = Inr entry"
    and "\<not> valid_entry entry"
  shows "load_map_manifest files self = Inl (MapManifestLoadError (entry_error entry))"
proof (cases "unpack3 entry")
  case (Inl e)
  then have "e = TypeError \<or> e = ValueError" by (rule unpack3_not_caught)
  with Inl assms(1,2) show ?thesis
    by (auto simp: load_map_manifest_def read_manifest_def entry_error_def Let_def)
next
  case (Inr m)
  with assms(3) have "\<not> entry_ok m" by (simp add: valid_entry_def)
  with Inr assms(1,2) show ?thesis
    by (simp add: load_map_manifest_def read_manifest_def entry_error_def Let_def
        split: prod.splits)
qed

theorem invalid_versioned_entry_raises_witness:
  "read_manifest files_bad_versioned ''renderer.resources.spaces'' ''spaces_01''
      = Inr (PInt 760, PInt 720, PFloat (Finite (8455958660350843 / 36028797018963968)))
   \<and> entry_ok (PInt 760, PInt 720, PFloat (Finite (8455958660350843 / 36028797018963968)))
   \<and> load_map_manifest files_bad_versioned (init demo_replay)
      = Inl (MapManifestLoadError AssertionError)"
proof -
  have 1: "files_bad_versioned (versioned_spaces (game_version (replay_data (init demo_replay))))
             ''manifest.json'' = Inr bad_manifest"
    by (simp add: files_bad_versioned_def demo_paths)
  have 2: "getitem bad_manifest (game_map (replay_data (init demo_replay)))
             = Inr (PList [PInt 760, PInt 720, PInt 1])"
    by (simp add: getitem_def bad_manifest_def demo_paths)
  have 3: "\<not> valid_entry (PList [PInt 760, PInt 720, PInt 1])"
    by (simp add: valid_entry_def unpack3_def iterate_def entry_ok_def isinstance_float_def)
  have 4: "entry_error (PList [PInt 760, PInt 720, PInt 1]) = AssertionError"
    by (simp add: entry_error_def unpack3_def iterate_def)
  have 5: "read_manifest files_bad_versioned ''renderer.resources.spaces'' ''spaces_01''
      = Inr (PInt 760, PInt 720, PFloat (Finite (8455958660350843 / 36028797018963968)))"
    by (simp add: read_manifest_def files_bad_versioned_def good_manifest_entry unpack3_good)
  from invalid_versioned_entry_raises [of files_bad_versioned "init demo_replay", OF 1 2 3]
    4 5 good_entry_ok
  show ?thesis by simp
qed

text \<open>
  C3, where the code departs from it. The replay names a version that has no package
  in the installation, so that no versioned manifest exists; the default manifest
  holds a valid entry for the map. The claim has the resolution fall back to the
  default manifest; \<^verbatim>\<open>open_text\<close> raises ModuleNotFoundError, which the inner
  handler does not catch, and the resolver raises MapManifestLoadError.
\<close>

theorem missing_version_package_raises:
  "files_no_version_package ''renderer.versions.0_11_6.resources.spaces'' ''manifest.json''
      = Inl ModuleNotFoundError
   \<and> read_manifest files_no_version_package ''renderer.resources.spaces'' ''spaces_01''
      = Inr (PInt 760, PInt 720, PFloat (Finite (8455958660350843 / 36028797018963968)))
   \<and> entry_ok (PInt 760, PInt 720, PFloat (Finite (8455958660350843 / 36028797018963968)))
   \<and> load_map_manifest files_no_version_package (init demo_replay)
      = Inl (MapManifestLoadError ModuleNotFoundError)"
proof -
  have 1: "files_no_version_package ''renderer.versions.0_11_6.resources.spaces'' ''manifest.json''
      = Inl ModuleNotFoundError"
    by (simp add: files_no_version_package_def)
  have 2: "read_manifest files_no_version_package ''renderer.resources.spaces'' ''spaces_01''
      = Inr (PInt 760, PInt 720, PFloat (Finite (8455958660350843 / 36028797018963968)))"
    by (simp add: read_manifest_def files_no_version_package_def good_manifest_entry unpack3_good)
  have 3: "load_map_manifest files_no_version_package (init demo_replay)
      = Inl (MapManifestLoadError ModuleNotFoundError)"
    by (simp add: load_map_manifest_def read_manifest_def demo_paths 1 Let_def)
  from 1 2 3 good_entry_ok show ?thesis by simp
qed

text \<open>
  C4 as stated fails: here the version's manifest is a JSON array. The map is in the
  default manifest, with a valid entry, and that manifest loads; no entry that
  violates an invariant is selected. The subscript raises TypeError, which the inner
  handler does not catch, and the resolver raises MapManifestLoadError.
\<close>

theorem manifest_error_counterexample:
  "files_array_versioned ''renderer.versions.0_11_6.resources.spaces'' ''manifest.json''
      = Inr (PList [])
   \<and> read_manifest files_array_versioned ''renderer.resources.spaces'' ''spaces_01''
      = Inr (PInt 760, PInt 720, PFloat (Finite (8455958660350843 / 36028797018963968)))
   \<and> entry_ok (PInt 760, PInt 720, PFloat (Finite (8455958660350843 / 36028797018963968)))
   \<and> selected_entry files_array_versioned (init demo_replay) = None
   \<and> load_map_manifest files_array_versioned (init demo_replay)
      = Inl (MapManifestLoadError TypeError)"
proof -
  have 1: "files_array_versioned ''renderer.versions.0_11_6.resources.spaces'' ''manifest.json''
      = Inr (PList [])"
    by (simp add: files_array_versioned_def)
  have 2: "read_manifest files_array_versioned ''renderer.resources.spaces'' ''spaces_01''
      = Inr (PInt 760, PInt 720, PFloat (Finite (8455958660350843 / 36028797018963968)))"
    by (simp add: read_manifest_def files_array_versioned_def good_manifest_entry unpack3_good)
  have 3: "read_manifest files_array_versioned ''renderer.versions.0_11_6.resources.spaces''
             ''spaces_01'' = Inl TypeError"
    by (simp add: read_manifest_def 1 getitem_def)
  have 4: "selected_entry files_array_versioned (init demo_replay) = None"
    by (simp add: selected_entry_def versioned_read_def demo_paths 3)
  have 5: "load_map_manifest files_array_versioned (init demo_replay)
      = Inl (MapManifestLoadError TypeError)"
    by (simp add: load_map_manifest_def demo_paths 3 Let_def)
  from 1 2 4 5 good_entry_ok show ?thesis by simp
qed

lemma load_map_manifest_cases:
  "load_map_manifest files self =
     (case versioned_read files self of
        Inr m \<Rightarrow>
          if entry_ok m then
            Inr (self\<lparr> minimap_size := int_value (fst m),
                       space_size := int_value (fst (snd m)),
                       scaling := float_value (snd (snd m)) \<rparr>,
                 versioned_spaces (game_version (replay_data self)) @ ''.''
                   @ game_map (replay_data self))
          else Inl (MapManifestLoadError AssertionError)
      | Inl e \<Rightarrow>
          if e = FileNotFoundError \<or> e = KeyError then
            (case default_read files self of
               Inr m \<Rightarrow>
                 if entry_ok m then
                   Inr (self\<lparr> minimap_size := int_value (fst m),
                              space_size := int_value (fst (snd m)),
                              scaling := float_value (snd (snd m)) \<rparr>,
                        default_spaces self @ ''.'' @ game_map (replay_data self))
                 else Inl (MapManifestLoadError AssertionError)
             | Inl e' \<Rightarrow> Inl (MapManifestLoadError e'))
          else Inl (MapManifestLoadError e))"
  by (simp add: load_map_manifest_def versioned_read_def default_read_def Let_def
      split: sum.splits)

text \<open>
  C4, amended. The case of a version whose package cannot be imported is set aside.
  Manifest loading raises if and only if (a) reading the version's manifest raises
  anything but FileNotFoundError and KeyError: it cannot be parsed, it is not a
  mapping, or the map's entry does not unpack into three values; or (b) the
  version's manifest is missing or lacks the map, and reading the default manifest
  raises: it cannot be loaded, it lacks the map too, or the entry does not unpack; or
  (c) the selected entry fails an assertion: \<open>minimap_size\<close> is the int 760,
  \<open>space_size\<close> an int with \<open>0 < space_size \<le> 1600\<close>, \<open>scale\<close> a float. Whatever is
  raised is a MapManifestLoadError. On success the three fields of the session are
  those of the selected entry.
\<close>

theorem manifest_load_outcome:
  assumes "files (versioned_spaces (game_version (replay_data self))) ''manifest.json''
           \<noteq> Inl ModuleNotFoundError"
  shows "((\<exists>e. load_map_manifest files self = Inl e) \<longleftrightarrow>
            (\<exists>e. versioned_read files self = Inl e \<and> e \<noteq> FileNotFoundError \<and> e \<noteq> KeyError)
          \<or> (\<exists>e e'. versioned_read files self = Inl e \<and> (e = FileNotFoundError \<or> e = KeyError)
                \<and> default_read files self = Inl e')
          \<or> (\<exists>m. selected_entry files self = Some m \<and> \<not> entry_ok m))
       \<and> (\<forall>e. load_map_manifest files self = Inl e \<longrightarrow> (\<exists>c. e = MapManifestLoadError c))
       \<and> (\<forall>self' map_res. load_map_manifest files self = Inr (self', map_res) \<longrightarrow>
            (\<exists>a b c. selected_entry files self = Some (a, b, c)
               \<and> minimap_size self' = int_value a \<and> space_size self' = int_value b
               \<and> scaling self' = float_value c
               \<and> minimap_size self' = 760 \<and> 0 < space_size self' \<and> space_size self' \<le> 1600
               \<and> isinstance_int a \<and> isinstance_int b \<and> isinstance_float c))"
proof (intro conjI allI impI)
  show "(\<exists>e. load_map_manifest files self = Inl e) \<longleftrightarrow>
            (\<exists>e. versioned_read files self = Inl e \<and> e \<noteq> FileNotFoundError \<and> e \<noteq> KeyError)
          \<or> (\<exists>e e'. versioned_read files self = Inl e \<and> (e = FileNotFoundError \<or> e = KeyError)
                \<and> default_read files self = Inl e')
          \<or> (\<exists>m. selected_entry files self = Some m \<and> \<not> entry_ok m)"
    unfolding load_map_manifest_cases selected_entry_def
    by (cases "versioned_read files self"; cases "default_read files self") auto
next
  fix e
  assume "load_map_manifest files self = Inl e"
  then show "\<exists>c. e = MapManifestLoadError c"
    unfolding load_map_manifest_cases
    by (cases "versioned_read files self"; cases "default_read files self")
      (auto split: if_splits)
next
  fix self' map_res
  assume "load_map_manifest files self = Inr (self', map_res)"
  then show "\<exists>a b c. selected_entry files self = Some (a, b, c)
               \<and> minimap_size self' = int_value a \<and> space_size self' = int_value b
               \<and> scaling self' = float_value c
               \<and> minimap_size self' = 760 \<and> 0 < space_size self' \<and> space_size self' \<le> 1600
               \<and> isinstance_int a \<and> isinstance_int b \<and> isinstance_float c"
    unfolding load_map_manifest_cases selected_entry_def
    by (cases "versioned_read files self"; cases "default_read files self")
      (auto split: if_splits simp: entry_ok_def)
qed

theorem manifest_load_outcome_witness:
  "files_only_default (versioned_spaces (game_version (replay_data (init demo_replay))))
      ''manifest.json'' \<noteq> Inl ModuleNotFoundError
   \<and> (\<exists>self'. load_map_manifest files_only_default (init demo_replay)
                = Inr (self', ''renderer.resources.spaces.spaces_01'')
         \<and> minimap_size self' = 760 \<and> space_size self' = 720
         \<and> scaling self' = Finite (8455958660350843 / 36028797018963968))"
proof -
  have 1: "files_only_default (versioned_spaces (game_version (replay_data (init demo_replay))))
      ''manifest.json'' \<noteq> Inl ModuleNotFoundError"
    by (simp add: files_only_default_def demo_paths)
  have v: "versioned_read files_only_default (init demo_replay) = Inl FileNotFoundError"
    by (simp add: versioned_read_def read_manifest_def files_only_default_def demo_paths)
  have d: "default_read files_only_default (init demo_replay)
           = Inr (PInt 760, PInt 720, PFloat (Finite (8455958660350843 / 36028797018963968)))"
    by (simp add: default_read_def read_manifest_def files_only_default_def demo_paths
        good_manifest_entry unpack3_good)
  have s: "selected_entry files_only_default (init demo_replay)
           = Some (PInt 760, PInt 720, PFloat (Finite (8455958660350843 / 36028797018963968)))"
    by (simp add: selected_entry_def v d)
  obtain self' where l: "load_map_manifest files_only_default (init demo_replay)
                = Inr (self', ''renderer.resources.spaces.spaces_01'')"
    by (simp add: load_map_manifest_cases v d good_entry_ok demo_paths)
  from manifest_load_outcome [of files_only_default "init demo_replay", OF 1,
      THEN conjunct2, THEN conjunct2, rule_format, OF l] s
  have "minimap_size self' = 760 \<and> space_size self' = 720
        \<and> scaling self' = Finite (8455958660350843 / 36028797018963968)"
    by (auto simp: int_value_def float_value_def)
  with 1 l show ?thesis by blast
qed

section \<open>Scaling coordinates: the formula\<close>

text \<open>
  The arithmetic of the example below: at the scale \<open>0.2347\<close> the coordinate 100
  has the product \<open>23.47\<close>; \<open>380\<close> plus it is rounded to 403, \<open>380\<close> minus it to 357.
\<close>

lemma nearest_prod_100:
  "nearest (100 * (8455958660350843 / 36028797018963968)) = Some (825777212924887 / 35184372088832)"
  "nearest (- 100 * (8455958660350843 / 36028797018963968))
   = Some (- (825777212924887 / 35184372088832))"
  using rd_prod_100 round_double_minus [of "100 * (8455958660350843 / 36028797018963968)"]
  by (simp_all add: nearest_def)

lemma nearest_380: "nearest (of_int 760 / 2) = Some 380"
  by (simp add: nearest_def round_double_380)

lemma nearest_sum_100:
  "nearest (825777212924887 / 35184372088832 + 380) = Some (1774479825835131 / 4398046511104)"
  "nearest (- (825777212924887 / 35184372088832) + 380)
   = Some (1568035522603909 / 4398046511104)"
  by (simp_all add: nearest_def eval_double)

lemma rhe_100:
  "round_half_even (1774479825835131 / 4398046511104) = 403"
  "round_half_even (1568035522603909 / 4398046511104) = 357"
  by (simp_all add: eval_double)

lemma to_pixels_100:
  "to_pixels (8455958660350843 / 36028797018963968) 760 (100, 100) True = Some (403, 357)"
  unfolding to_pixels_def pixel_def fst_conv snd_conv if_True nearest_prod_100 nearest_380
    option.case nearest_sum_100 rhe_100
  by simp

lemma inf_manifest_read:
  "load_map_manifest files_inf_scale (init demo_replay)
   = Inr (inf_session, ''renderer.resources.spaces.spaces_01'')"
proof -
  have v: "versioned_read files_inf_scale (init demo_replay) = Inl FileNotFoundError"
    by (simp add: versioned_read_def read_manifest_def files_inf_scale_def demo_paths)
  have d: "default_read files_inf_scale (init demo_replay)
           = Inr (PInt 760, PInt 720, PFloat PosInf)"
    by (simp add: default_read_def read_manifest_def files_inf_scale_def demo_paths
        inf_manifest_def getitem_def unpack3_def iterate_def)
  have e: "entry_ok (PInt 760, PInt 720, PFloat PosInf)"
    by (simp add: entry_ok_def isinstance_int_def isinstance_float_def int_value_def)
  show ?thesis
    by (simp add: load_map_manifest_cases v d e demo_paths int_value_def float_value_def
        inf_session_def)
qed

text \<open>
  C5 as stated fails for a scale that the manifest's assertions accept: the entry
  \<^verbatim>\<open>[760, 720, Infinity]\<close> loads (an infinity is a float), and then the origin is
  not scaled to \<open>(380, 380)\<close>: \<^verbatim>\<open>0 * inf\<close> is a NaN, and \<^verbatim>\<open>round\<close> raises ValueError.
\<close>

theorem infinite_scale_counterexample:
  "load_map_manifest files_inf_scale (init demo_replay)
     = Inr (inf_session, ''renderer.resources.spaces.spaces_01'')
   \<and> get_scaled inf_session (NInt 0, NInt 0) True = Inl ValueError"
  by (simp add: inf_manifest_read get_scaled_def scale_axis_def mul_float_def float_of_int_def
      round_double_0 neg_def inf_session_def truediv_760 py_round_def)

text \<open>
  C5, amended. For a finite scale and coordinates that have finite values,
  \<^verbatim>\<open>get_scaled\<close> is the transform \<open>to_pixels\<close> on exact numbers: each axis is
  \<^verbatim>\<open>round(world * scale + minimap_size / 2)\<close> in binary64 arithmetic, with y negated
  first when \<open>flip_y\<close> is set, and an OverflowError when a result leaves the binary64
  range. For every finite scale and the size 760 the origin is scaled to
  \<open>(380, 380)\<close>, whether it is given as integers or as floats. And for the size 760
  and products of magnitude at most 1000, each pixel is within \<open>1/2 + 2 ^ (- 42)\<close> of
  the exact number \<open>world * scale + 380\<close>.
\<close>

theorem get_scaled_finite_scale:
  assumes sc: "scaling self = Finite s"
    and x: "world_value x = Some a" and y: "world_value y = Some b"
  shows "get_scaled self (x, y) flip_y =
           (case to_pixels s (minimap_size self) (a, b) flip_y of
              None \<Rightarrow> Inl OverflowError
            | Some p \<Rightarrow> Inr p)
       \<and> (minimap_size self = 760 \<longrightarrow>
            get_scaled self (NInt 0, NInt 0) True = Inr (380, 380)
          \<and> get_scaled self (NFloat (Finite 0), NFloat (Finite 0)) True = Inr (380, 380))
       \<and> (minimap_size self = 760 \<and> \<bar>a * s\<bar> \<le> 1000 \<and> \<bar>b * s\<bar> \<le> 1000 \<longrightarrow>
            (\<exists>px py. get_scaled self (x, y) flip_y = Inr (px, py)
               \<and> \<bar>of_int px - (a * s + 380)\<bar> \<le> 1 / 2 + 1 / 2 ^ 42
               \<and> \<bar>of_int py - ((if flip_y then - b else b) * s + 380)\<bar> \<le> 1 / 2 + 1 / 2 ^ 42))"
proof (intro conjI impI)
  show "get_scaled self (x, y) flip_y =
           (case to_pixels s (minimap_size self) (a, b) flip_y of
              None \<Rightarrow> Inl OverflowError
            | Some p \<Rightarrow> Inr p)"
    using sc x y by (rule get_scaled_to_pixels)
next
  assume "minimap_size self = 760"
  then show "get_scaled self (NInt 0, NInt 0) True = Inr (380, 380)"
    using scale_axis_zero(1) [OF sc] by (simp add: get_scaled_def neg_def Let_def)
next
  assume "minimap_size self = 760"
  then show "get_scaled self (NFloat (Finite 0), NFloat (Finite 0)) True = Inr (380, 380)"
    using scale_axis_zero(2) [OF sc] by (simp add: get_scaled_def neg_def Let_def)
next
  assume h: "minimap_size self = 760 \<and> \<bar>a * s\<bar> \<le> 1000 \<and> \<bar>b * s\<bar> \<le> 1000"
  then have sz: "minimap_size self = 760" and ra: "\<bar>a * s\<bar> \<le> 1000" by simp_all
  let ?y = "if flip_y then neg y else y"
  let ?b = "if flip_y then - b else b"
  have y': "world_value ?y = Some ?b" using y by (simp add: world_value_neg)
  have rb: "\<bar>?b * s\<bar> \<le> 1000" using h by simp
  from scale_axis_accuracy [OF sc sz x ra] obtain px where
    px: "scale_axis self x = Inr px"
    and ex: "\<bar>of_int px - (a * s + 380)\<bar> \<le> 1 / 2 + 1 / 2 ^ 42" by blast
  from scale_axis_accuracy [OF sc sz y' rb] obtain py where
    py: "scale_axis self ?y = Inr py"
    and ey: "\<bar>of_int py - (?b * s + 380)\<bar> \<le> 1 / 2 + 1 / 2 ^ 42" by blast
  have "get_scaled self (x, y) flip_y = Inr (px, py)"
    unfolding get_scaled_def Let_def fst_conv snd_conv px py by simp
  with ex ey show "\<exists>px py. get_scaled self (x, y) flip_y = Inr (px, py)
               \<and> \<bar>of_int px - (a * s + 380)\<bar> \<le> 1 / 2 + 1 / 2 ^ 42
               \<and> \<bar>of_int py - ((if flip_y then - b else b) * s + 380)\<bar> \<le> 1 / 2 + 1 / 2 ^ 42"
    by blast
qed

theorem get_scaled_finite_scale_witness:
  "scaling demo_session = Finite (8455958660350843 / 36028797018963968)
   \<and> world_value (NInt 100) = Some 100
   \<and> minimap_size demo_session = 760
   \<and> \<bar>100 * (8455958660350843 / 36028797018963968) :: rat\<bar> \<le> 1000
   \<and> to_pixels (8455958660350843 / 36028797018963968) 760 (100, 100) True = Some (403, 357)
   \<and> get_scaled demo_session (NInt 100, NInt 100) True = Inr (403, 357)
   \<and> \<bar>403 - (100 * (8455958660350843 / 36028797018963968) + 380) :: rat\<bar> \<le> 1 / 2 + 1 / 2 ^ 42
   \<and> get_scaled demo_session (NInt 0, NInt 0) True = Inr (380, 380)"
proof -
  have sc: "scaling demo_session = Finite (8455958660350843 / 36028797018963968)"
    and sz: "minimap_size demo_session = 760"
    by (simp_all add: demo_session_def)
  have v: "world_value (NInt 100) = Some 100"
    using world_value_int [of 100] by simp
  have r: "\<bar>100 * (8455958660350843 / 36028797018963968) :: rat\<bar> \<le> 1000" by simp
  note t = get_scaled_finite_scale [OF sc v v, of True, unfolded sz to_pixels_100]
  from t have 1: "get_scaled demo_session (NInt 100, NInt 100) True = Inr (403, 357)"
    by simp
  from t have 2: "get_scaled demo_session (NInt 0, NInt 0) True = Inr (380, 380)"
    by simp
  from t r 1 have 3: "\<bar>403 - (100 * (8455958660350843 / 36028797018963968) + 380) :: rat\<bar>
                      \<le> 1 / 2 + 1 / 2 ^ 42"
    by simp
  from sc v sz r to_pixels_100 1 2 3 show ?thesis by blast
qed

section \<open>The layer registry: the claims\<close>

lemma import_default: "import_module mods ''.layers'' package = Inr layers_init"
  by (simp add: import_module_def)

lemma resolve_layer_cases:
  "resolve_layer mods self layer =
     (case versioned_lookup mods self layer of
        Inr c \<Rightarrow> Inr (Layer c self)
      | Inl e \<Rightarrow>
          if e = ModuleNotFoundError \<or> e = AttributeError then
            (case getattr layers_init (layer @ ''Base'') of
               Inl e' \<Rightarrow> Inl e'
             | Inr c \<Rightarrow> Inr (Layer c self))
          else Inl e)"
  by (simp add: resolve_layer_def versioned_lookup_def import_default Let_def split: sum.splits)


lemma layers_loop_append:
  "layers_loop mods self names acc = Inr ls \<longleftrightarrow>
     (\<exists>rs. list_all2 (\<lambda>name l. resolve_layer mods self name = Inr l) names rs \<and> ls = acc @ rs)"
proof (induction names arbitrary: acc)
  case Nil
  then show ?case by auto
next
  case (Cons name names)
  show ?case
  proof (cases "resolve_layer mods self name")
    case (Inl e)
    then show ?thesis by (auto simp: list_all2_Cons1)
  next
    case (Inr l)
    then show ?thesis
      using Cons.IH [of "acc @ [l]"] by (auto simp: list_all2_Cons1)
  qed
qed

lemma check_no_versions:
  "check_versioned_layers no_versions (self :: 'ev renderer) =
     Inr [default_layer ''ship'' ''LayerShipBase'' self,
          default_layer ''shot'' ''LayerShotBase'' self,
          default_layer ''torpedo'' ''LayerTorpedoBase'' self,
          default_layer ''smoke'' ''LayerSmokeBase'' self,
          default_layer ''plane'' ''LayerPlaneBase'' self,
          default_layer ''ward'' ''LayerWardBase'' self,
          default_layer ''capture'' ''LayerCaptureBase'' self]"
  by (simp add: check_versioned_layers_def layers_def resolve_layer_cases versioned_lookup_def
      import_module_def no_versions_def getattr_def layers_init_def package_def default_layer_def)

lemma check_ship_only:
  "check_versioned_layers ship_only (init demo_replay) =
     Inr [Layer (LayerClass ''renderer.versions.0_11_6.layers'' ''LayerShip'') (init demo_replay),
          default_layer ''shot'' ''LayerShotBase'' (init demo_replay),
          default_layer ''torpedo'' ''LayerTorpedoBase'' (init demo_replay),
          default_layer ''smoke'' ''LayerSmokeBase'' (init demo_replay),
          default_layer ''plane'' ''LayerPlaneBase'' (init demo_replay),
          default_layer ''ward'' ''LayerWardBase'' (init demo_replay),
          default_layer ''capture'' ''LayerCaptureBase'' (init demo_replay)]"
  by (simp add: check_versioned_layers_def layers_def resolve_layer_cases versioned_lookup_def
      import_module_def ship_only_def getattr_def layers_init_def package_def default_layer_def
      init_def demo_replay_def)



text \<open>
  C7 as stated fails: the registry's list has seven names, not fifteen, and its order
  (Ship, Shot, Torpedo, Smoke, Plane, Ward, Capture) is not the order of drawing
  (Capture, Ward, Shot, Torpedo, Ship, Smoke, Plane). In an installation without
  version modules the registry returns the seven default layers in the list's order.
\<close>

theorem registry_order_counterexample:
  "length layers = 7
   \<and> layers \<noteq> [''LayerCapture'', ''LayerWard'', ''LayerShot'', ''LayerTorpedo'', ''LayerShip'',
                 ''LayerSmoke'', ''LayerPlane'']
   \<and> check_versioned_layers no_versions (init demo_replay) =
       Inr [default_layer ''ship'' ''LayerShipBase'' (init demo_replay),
            default_layer ''shot'' ''LayerShotBase'' (init demo_replay),
            default_layer ''torpedo'' ''LayerTorpedoBase'' (init demo_replay),
            default_layer ''smoke'' ''LayerSmokeBase'' (init demo_replay),
            default_layer ''plane'' ''LayerPlaneBase'' (init demo_replay),
            default_layer ''ward'' ''LayerWardBase'' (init demo_replay),
            default_layer ''capture'' ''LayerCaptureBase'' (init demo_replay)]"
  by (simp add: layers_def check_no_versions)

text \<open>
  C7, amended. When the registry returns, it has resolved the seven names Ship, Shot,
  Torpedo, Smoke, Plane, Ward, Capture, in this order, one layer each; the tuple
  assignment of \<^verbatim>\<open>start\<close> binds them by position, so that each of the seven
  drawing steps (Capture, Ward, Shot, Torpedo, Ship, Smoke, Plane) uses the layer
  resolved for its own name.
\<close>

theorem registry_order:
  assumes "check_versioned_layers mods self = Inr ls"
  shows "list_all2 (\<lambda>name l. resolve_layer mods self name = Inr l)
           [''LayerShip'', ''LayerShot'', ''LayerTorpedo'', ''LayerSmoke'', ''LayerPlane'',
            ''LayerWard'', ''LayerCapture''] ls
       \<and> (\<exists>b. bind_layers ls = Inr b
             \<and> list_all2 (\<lambda>name step. resolve_layer mods self name = Inr (fst step))
                 [''LayerCapture'', ''LayerWard'', ''LayerShot'', ''LayerTorpedo'', ''LayerShip'',
                  ''LayerSmoke'', ''LayerPlane''] (draw_steps b))"
proof -
  from assms have r: "list_all2 (\<lambda>name l. resolve_layer mods self name = Inr l) layers ls"
    unfolding check_versioned_layers_def layers_loop_append by simp
  then obtain l1 l2 l3 l4 l5 l6 l7 where ls: "ls = [l1, l2, l3, l4, l5, l6, l7]"
    and "resolve_layer mods self ''LayerShip'' = Inr l1"
    and "resolve_layer mods self ''LayerShot'' = Inr l2"
    and "resolve_layer mods self ''LayerTorpedo'' = Inr l3"
    and "resolve_layer mods self ''LayerSmoke'' = Inr l4"
    and "resolve_layer mods self ''LayerPlane'' = Inr l5"
    and "resolve_layer mods self ''LayerWard'' = Inr l6"
    and "resolve_layer mods self ''LayerCapture'' = Inr l7"
    unfolding layers_def by (auto simp: list_all2_Cons1)
  then show ?thesis
    using r unfolding layers_def by (simp add: bind_layers_def draw_steps_def)
qed

theorem registry_order_witness:
  "\<exists>ls b. check_versioned_layers ship_only (init demo_replay) = Inr ls
       \<and> bind_layers ls = Inr b
       \<and> map (\<lambda>step. class_name (fst step)) (draw_steps b)
         = [''LayerCaptureBase'', ''LayerWardBase'', ''LayerShotBase'', ''LayerTorpedoBase'',
            ''LayerShip'', ''LayerSmokeBase'', ''LayerPlaneBase'']"
proof -
  let ?self = "init demo_replay :: unit renderer"
  obtain ls where c: "check_versioned_layers ship_only ?self = Inr ls"
    using check_ship_only by blast
  from registry_order [OF c] obtain b where b: "bind_layers ls = Inr b"
    and d: "list_all2 (\<lambda>name step. resolve_layer ship_only ?self name = Inr (fst step))
                 [''LayerCapture'', ''LayerWard'', ''LayerShot'', ''LayerTorpedo'', ''LayerShip'',
                  ''LayerSmoke'', ''LayerPlane''] (draw_steps b)"
    by blast
  have res: "resolve_layer ship_only ?self ''LayerCapture'' = Inr (default_layer ''capture'' ''LayerCaptureBase'' ?self)"
    "resolve_layer ship_only ?self ''LayerWard'' = Inr (default_layer ''ward'' ''LayerWardBase'' ?self)"
    "resolve_layer ship_only ?self ''LayerShot'' = Inr (default_layer ''shot'' ''LayerShotBase'' ?self)"
    "resolve_layer ship_only ?self ''LayerTorpedo'' = Inr (default_layer ''torpedo'' ''LayerTorpedoBase'' ?self)"
    "resolve_layer ship_only ?self ''LayerShip'' = Inr (Layer (LayerClass ''renderer.versions.0_11_6.layers'' ''LayerShip'') ?self)"
    "resolve_layer ship_only ?self ''LayerSmoke'' = Inr (default_layer ''smoke'' ''LayerSmokeBase'' ?self)"
    "resolve_layer ship_only ?self ''LayerPlane'' = Inr (default_layer ''plane'' ''LayerPlaneBase'' ?self)"
    by (simp_all add: resolve_layer_cases versioned_lookup_def
      import_module_def ship_only_def getattr_def layers_init_def package_def default_layer_def
      init_def demo_replay_def)
  from d have e: "layer_capture b = default_layer ''capture'' ''LayerCaptureBase'' ?self"
    "layer_ward b = default_layer ''ward'' ''LayerWardBase'' ?self"
    "layer_shot b = default_layer ''shot'' ''LayerShotBase'' ?self"
    "layer_torpedo b = default_layer ''torpedo'' ''LayerTorpedoBase'' ?self"
    "layer_ship b = Layer (LayerClass ''renderer.versions.0_11_6.layers'' ''LayerShip'') ?self"
    "layer_smoke b = default_layer ''smoke'' ''LayerSmokeBase'' ?self"
    "layer_plane b = default_layer ''plane'' ''LayerPlaneBase'' ?self"
    unfolding draw_steps_def by (simp_all add: res)
  have "map (\<lambda>step. class_name (fst step)) (draw_steps b)
         = [''LayerCaptureBase'', ''LayerWardBase'', ''LayerShotBase'', ''LayerTorpedoBase'',
            ''LayerShip'', ''LayerSmokeBase'', ''LayerPlaneBase'']"
    unfolding draw_steps_def by (simp add: e default_layer_def)
  with c b show ?thesis by (intro exI [of _ ls] exI [of _ b]) simp
qed

section \<open>Rendering: the claims\<close>

lemma seq_Inr: "m w = (Inr a, w') \<Longrightarrow> seq m f w = f a w'"
  by (simp add: seq_def)

lemma seq_Inl: "m w = (Inl e, w') \<Longrightarrow> seq m f w = (Inl e, w')"
  by (simp add: seq_def)

lemma draw_eq:
  "draw env l t (Canvas s r) w =
     (case layer_draw env l t s (images w ! r) of
        Inl e \<Rightarrow> (Inl e, w)
      | Inr img \<Rightarrow> (Inr (), w\<lparr> images := (images w)[r := img] \<rparr>))"
  by (simp add: draw_def update_image_def)

lemma draws_on_eq:
  "r < length (images w) \<Longrightarrow>
   draws_on env t steps r w =
     (case draw_all env t steps (images w ! r) of
        (None, img) \<Rightarrow> (Inr (), w\<lparr> images := (images w)[r := img] \<rparr>)
      | (Some e, img) \<Rightarrow> (Inl e, w\<lparr> images := (images w)[r := img] \<rparr>))"
proof (induction steps arbitrary: w)
  case Nil
  then show ?case by simp
next
  case (Cons step steps)
  show ?case
  proof (cases "layer_draw env (fst step) t (snd step) (images w ! r)")
    case (Inl e)
    then show ?thesis by (simp add: draw_eq)
  next
    case (Inr img)
    let ?w = "w\<lparr> images := (images w)[r := img] \<rparr>"
    have "r < length (images ?w)" using Cons.prems by simp
    from Cons.IH [OF this] Inr Cons.prems show ?thesis
      by (simp add: draw_eq split: prod.splits option.splits)
  qed
qed

lemma render_frame_draws:
  "render_frame env ls fg bg t w =
     seq (copy_image fg) (\<lambda>a.
     seq (copy_image bg) (\<lambda>b.
     seq (draws_on env t (draw_steps ls) a) (\<lambda>_.
     seq (paste_image env b a (40, 40)) (\<lambda>_.
     (\<lambda>w. send env (tobytes env (images w ! b)) w))))) w"
  by (simp add: render_frame_def draw_steps_def seq_def split: prod.splits sum.splits)


lemma render_frame_eq:
  assumes "fg < length (images w)" "bg < length (images w)"
  shows "render_frame env ls fg bg t w =
     (case draw_all env t (draw_steps ls) (images w ! fg) of
        (Some e, img) \<Rightarrow> (Inl e, w\<lparr> images := images w @ [img, images w ! bg] \<rparr>)
      | (None, img) \<Rightarrow>
          (case paste env (images w ! bg) img (Some (40, 40)) None of
             Inl e \<Rightarrow> (Inl e, w\<lparr> images := images w @ [img, images w ! bg] \<rparr>)
           | Inr frame \<Rightarrow>
               send env (tobytes env frame) (w\<lparr> images := images w @ [img, frame] \<rparr>)))"
proof -
  let ?n = "length (images w)"
  let ?w2 = "w\<lparr> images := images w @ [images w ! fg, images w ! bg] \<rparr>"
  have c1: "copy_image fg w = (Inr ?n, w\<lparr> images := images w @ [images w ! fg] \<rparr>)"
    by (simp add: copy_image_def new_image_def)
  have c2: "copy_image bg (w\<lparr> images := images w @ [images w ! fg] \<rparr>) = (Inr (Suc ?n), ?w2)"
    using assms(2) by (simp add: copy_image_def new_image_def nth_append)
  have r: "?n < length (images ?w2)" by simp
  have at: "images ?w2 ! ?n = images w ! fg" by (simp add: nth_append)
  have upd: "(images ?w2)[?n := img] = images w @ [img, images w ! bg]" for img
    by (simp add: list_update_append)
  show ?thesis
    unfolding render_frame_draws
    by (simp add: seq_def c1 c2 draws_on_eq [OF r] at upd paste_image_def update_image_def
        nth_append list_update_append split: prod.splits option.splits sum.splits)
qed

lemma send_eq:
  "writer w = Some vw \<Longrightarrow>
   send env b w =
     (case ffmpeg_write env (args vw) (sent vw) b of
        Some e \<Rightarrow> (Inl e, w\<lparr> writer := Some (vw\<lparr> status := Failed \<rparr>) \<rparr>)
      | None \<Rightarrow> (Inr (), w\<lparr> writer := Some (vw\<lparr> sent := sent vw @ [b] \<rparr>) \<rparr>))"
  by (simp add: send_def)


lemma render_frame_outcome:
  assumes fg: "fg < length (images w)" and bg: "bg < length (images w)"
    and vw: "writer w = Some vw"
    and run: "render_frame env ls fg bg t w = (r, w')"
  shows "take (length (images w)) (images w') = images w
       \<and> length (images w) \<le> length (images w')
       \<and> (case r of
            Inr _ \<Rightarrow> (\<exists>b. frame_for env ls (images w ! fg) (images w ! bg) t b
                        \<and> writer w' = Some (vw\<lparr> sent := sent vw @ [b] \<rparr>))
          | Inl e \<Rightarrow> writer w' = Some vw \<or> writer w' = Some (vw\<lparr> status := Failed \<rparr>))"
proof (cases "draw_all env t (draw_steps ls) (images w ! fg)")
  case (Pair eo img)
  show ?thesis
  proof (cases eo)
    case (Some e)
    with Pair run fg bg vw show ?thesis
      by (auto simp: render_frame_eq)
  next
    case None
    show ?thesis
    proof (cases "paste env (images w ! bg) img (Some (40, 40)) None")
      case (Inl e)
      with None Pair run fg bg vw show ?thesis
        by (auto simp: render_frame_eq)
    next
      case (Inr frame)
      have c: "compose_frame env ls t (images w ! fg) (images w ! bg) = Inr frame"
        by (simp add: compose_frame_def Pair None Inr)
      have w: "writer (w\<lparr> images := images w @ [img, frame] \<rparr>) = Some vw"
        using vw by simp
      from run have "send env (tobytes env frame) (w\<lparr> images := images w @ [img, frame] \<rparr>) = (r, w')"
        by (simp add: render_frame_eq [OF fg bg] Pair None Inr)
      then show ?thesis
        unfolding send_eq [OF w]
        by (cases "ffmpeg_write env (args vw) (sent vw) (tobytes env frame)")
          (auto simp: frame_for_def c)
    qed
  qed
qed


lemma take_prefix_nth: "take n xs = ys \<Longrightarrow> i < n \<Longrightarrow> xs ! i = ys ! i"
  by (metis nth_take)

lemma take_prefix_trans:
  "take m xs = ys \<Longrightarrow> take n ys = zs \<Longrightarrow> n \<le> m \<Longrightarrow> take n xs = zs"
  by (metis min.absorb1 take_take)

lemma frames_loop_outcome:
  assumes "fg < length (images w)" "bg < length (images w)" "writer w = Some vw"
    and "frames_loop env ls fg bg ts w = (r, w')"
  shows "\<exists>bs. list_all2 (frame_for env ls (images w ! fg) (images w ! bg)) (take (length bs) ts) bs
          \<and> take (length (images w)) (images w') = images w
          \<and> (case r of
               Inr _ \<Rightarrow> length bs = length ts \<and> writer w' = Some (vw\<lparr> sent := sent vw @ bs \<rparr>)
             | Inl e \<Rightarrow> length bs < length ts
                  \<and> (writer w' = Some (vw\<lparr> sent := sent vw @ bs \<rparr>)
                     \<or> writer w' = Some (vw\<lparr> sent := sent vw @ bs, status := Failed \<rparr>)))"
  using assms
proof (induction ts arbitrary: w vw)
  case Nil
  then show ?case by (intro exI [of _ "[]"]) auto
next
  case (Cons t ts)
  obtain r1 w1 where rf: "render_frame env ls fg bg t w = (r1, w1)" by fastforce
  note out = render_frame_outcome [OF Cons.prems(1) Cons.prems(2) Cons.prems(3) rf]
  from out have pre: "take (length (images w)) (images w1) = images w"
    and len: "length (images w) \<le> length (images w1)" by blast+
  show ?case
  proof (cases r1)
    case (Inl e)
    with Cons.prems(4) rf have "r = Inl e" "w' = w1" by simp_all
    with out Inl pre show ?thesis by (intro exI [of _ "[]"]) auto
  next
    case (Inr u)
    with out obtain b where b: "frame_for env ls (images w ! fg) (images w ! bg) t b"
      and w1: "writer w1 = Some (vw\<lparr> sent := sent vw @ [b] \<rparr>)" by auto
    from Cons.prems(4) rf Inr have rest: "frames_loop env ls fg bg ts w1 = (r, w')" by simp
    have fg1: "fg < length (images w1)" and bg1: "bg < length (images w1)"
      using len Cons.prems(1,2) by linarith+
    have efg: "images w1 ! fg = images w ! fg"
      using take_prefix_nth [OF pre Cons.prems(1)] .
    have ebg: "images w1 ! bg = images w ! bg"
      using take_prefix_nth [OF pre Cons.prems(2)] .
    from Cons.IH [OF fg1 bg1 w1 rest] obtain bs where
      l: "list_all2 (frame_for env ls (images w ! fg) (images w ! bg)) (take (length bs) ts) bs"
      and p: "take (length (images w1)) (images w') = images w1"
      and c: "(case r of
               Inr _ \<Rightarrow> length bs = length ts
                  \<and> writer w' = Some (vw\<lparr> sent := sent vw @ [b] \<rparr>\<lparr> sent := sent (vw\<lparr> sent := sent vw @ [b] \<rparr>) @ bs \<rparr>)
             | Inl e \<Rightarrow> length bs < length ts
                  \<and> (writer w' = Some (vw\<lparr> sent := sent vw @ [b] \<rparr>\<lparr> sent := sent (vw\<lparr> sent := sent vw @ [b] \<rparr>) @ bs \<rparr>)
                     \<or> writer w' = Some (vw\<lparr> sent := sent vw @ [b] \<rparr>\<lparr> sent := sent (vw\<lparr> sent := sent vw @ [b] \<rparr>) @ bs, status := Failed \<rparr>)))"
      unfolding efg ebg by blast
    have p': "take (length (images w)) (images w') = images w"
      using take_prefix_trans [OF p pre len] .
    show ?thesis
      using l b p' c by (intro exI [of _ "b # bs"]) (cases r; simp)
  qed
qed


lemma load_map_manifest_keeps:
  assumes "load_map_manifest files self = Inr (self', p)"
  shows "replay_data self' = replay_data self"
  using assms
  by (auto simp: load_map_manifest_def Let_def split: sum.splits if_splits prod.splits)

lemma load_map_images_outcome:
  assumes "load_map_images env self map_res w = (r, w')"
  shows "writer w' = writer w
       \<and> (case r of
            Inl e \<Rightarrow> True
          | Inr self' \<Rightarrow>
              replay_data self' = replay_data self
              \<and> (\<exists>fg bg. minimap_image self' = Some fg \<and> minimap_bg self' = Some bg
                    \<and> fg < length (images w') \<and> bg < length (images w')))"
  using assms
  by (auto simp: load_map_images_def seq_def lift_def ok_def new_image_def update_image_def
      split: sum.splits prod.splits)

lemma load_map_outcome:
  assumes "load_map env self w = (r, w')"
  shows "writer w' = writer w
       \<and> (case r of
            Inl e \<Rightarrow> True
          | Inr self' \<Rightarrow>
              replay_data self' = replay_data self
              \<and> (\<exists>fg bg. minimap_image self' = Some fg \<and> minimap_bg self' = Some bg
                    \<and> fg < length (images w') \<and> bg < length (images w')))"
proof (cases "load_map_manifest (open_json env) self")
  case (Inl e)
  with assms show ?thesis by (auto simp: load_map_def)
next
  case (Inr sp)
  obtain self1 map_res where sp: "sp = (self1, map_res)" by (cases sp)
  obtain r1 w1 where i: "load_map_images env self1 map_res w = (r1, w1)" by fastforce
  note o = load_map_images_outcome [OF i]
  have k: "replay_data self1 = replay_data self"
    using Inr sp load_map_manifest_keeps by blast
  show ?thesis
  proof (cases r1)
    case (Inl e)
    with assms Inr sp i o show ?thesis by (auto simp: load_map_def split: if_splits)
  next
    case (Inr self2)
    with assms \<open>load_map_manifest (open_json env) self = Inr sp\<close> sp i
    have "r = Inr self2" "w' = w1" by (auto simp: load_map_def)
    with o Inr k show ?thesis by auto
  qed
qed

lemma start_unfold:
  "start env self w =
     (case load_map env self w of
        (Inl e, w1) \<Rightarrow> (Inl e, w1)
      | (Inr self1, w1) \<Rightarrow>
          (case minimap_image self1 of
             None \<Rightarrow> (Inl AssertionError, w1)
           | Some fg \<Rightarrow>
               (case minimap_bg self1 of
                  None \<Rightarrow> (Inl AssertionError, w1)
                | Some bg \<Rightarrow>
                    (case check_versioned_layers (modules env) self1 of
                       Inl e \<Rightarrow> (Inl e, w1)
                     | Inr il \<Rightarrow>
                         (case bind_layers il of
                            Inl e \<Rightarrow> (Inl e, w1)
                          | Inr ls \<Rightarrow>
                              (case ffmpeg_start env (writer_args_of env (images w1 ! bg)) of
                                 Some e \<Rightarrow>
                                   (Inl e, w1\<lparr> writer := Some
                                      \<lparr> args = writer_args_of env (images w1 ! bg),
                                        status = Failed, sent = [] \<rparr> \<rparr>)
                               | None \<Rightarrow>
                                   (case frames_loop env ls fg bg
                                           (map fst (events (replay_data self1)))
                                           (w1\<lparr> writer := Some
                                              \<lparr> args = writer_args_of env (images w1 ! bg),
                                                status = Running, sent = [] \<rparr> \<rparr>) of
                                      (Inl e, w3) \<Rightarrow> (Inl e, w3)
                                    | (Inr u, w3) \<Rightarrow>
                                        (case writer w3 of
                                           None \<Rightarrow>
                                             (Inl (OtherError ''video_writer is unbound''), w3)
                                         | Some vw \<Rightarrow>
                                             (Inr self1,
                                              w3\<lparr> writer := Some (vw\<lparr> status := Closed \<rparr>) \<rparr>)))))))))"
  by (auto simp: start_def seq_def lift_def ok_def raise_def write_frames_def send_none_def
      close_def writer_args_of_def
      split: prod.splits sum.splits option.splits)

lemma two_frames_paths:
  "versioned_spaces (game_version (replay_data (init two_frames)))
   = ''renderer.versions.0_11_6.resources.spaces''"
  "default_spaces (init two_frames) = ''renderer.resources.spaces''"
  "game_map (replay_data (init two_frames)) = ''spaces_01''"
  by (simp_all add: versioned_spaces_def default_spaces_def init_def two_frames_def package_def)

lemma two_frames_manifest:
  "load_map_manifest files_only_default (init two_frames)
   = Inr ((init two_frames)\<lparr> minimap_size := 760, space_size := 720,
                        scaling := Finite (8455958660350843 / 36028797018963968) \<rparr>,
          ''renderer.resources.spaces.spaces_01'')"
proof -
  have v: "versioned_read files_only_default (init two_frames) = Inl FileNotFoundError"
    by (simp add: versioned_read_def read_manifest_def files_only_default_def two_frames_paths)
  have d: "default_read files_only_default (init two_frames)
           = Inr (PInt 760, PInt 720, PFloat (Finite (8455958660350843 / 36028797018963968)))"
    by (simp add: default_read_def read_manifest_def files_only_default_def two_frames_paths
        good_manifest_entry unpack3_good)
  show ?thesis
    by (simp add: load_map_manifest_cases v d good_entry_ok two_frames_paths int_value_def
        float_value_def)
qed

lemma demo_loaded:
  "load_map demo_env (init two_frames) empty_world = (Inr loaded_session, loaded_world)"
  "load_map broken_ship_env (init two_frames) empty_world = (Inr loaded_session, loaded_world)"
  by (simp_all add: load_map_def demo_env_def broken_ship_env_def two_frames_manifest
      load_map_images_def seq_def lift_def ok_def new_image_def update_image_def empty_world_def
      loaded_session_def loaded_world_def background_image_def foreground_image_def)


lemma demo_bound:
  "\<exists>il. check_versioned_layers (modules demo_env) loaded_session = Inr il
        \<and> bind_layers il = Inr demo_layers"
  "\<exists>il. check_versioned_layers (modules broken_ship_env) loaded_session = Inr il
        \<and> bind_layers il = Inr demo_layers"
  by (simp_all add: demo_env_def broken_ship_env_def check_no_versions bind_layers_def
      demo_layers_def)

lemma demo_env_simps:
  "paste demo_env d s box msk = Inr (d @ ''paste'' # s)"
  "tobytes demo_env img = img"
  "ffmpeg_write demo_env a fs b = None"
  "ffmpeg_start demo_env a = None"
  "modules demo_env = no_versions"
  "size_of demo_env img = (840, 840)"
  by (simp_all add: demo_env_def)

lemma draw_all_demo:
  "draw_all demo_env t steps img
   = (None, img @ map (\<lambda>step. draw_mark (fst step) t (snd step)) steps)"
  by (induction steps arbitrary: img) (simp_all add: demo_env_def)

lemma compose_demo:
  "compose_frame demo_env demo_layers t foreground_image background_image = Inr (demo_frame t)"
  by (simp add: compose_frame_def draw_all_demo demo_frame_def demo_env_simps)

lemma frames_loop_demo:
  assumes "writer w = Some vw" "1 < length (images w)" "0 < length (images w)"
    "images w ! 1 = foreground_image" "images w ! 0 = background_image"
  shows "\<exists>w'. frames_loop demo_env demo_layers 1 0 ts w = (Inr (), w')
           \<and> writer w' = Some (vw\<lparr> sent := sent vw @ map demo_frame ts \<rparr>)"
  using assms
proof (induction ts arbitrary: w vw)
  case Nil
  then show ?case by simp
next
  case (Cons t ts)
  let ?w1 = "w\<lparr> images := images w @ [foreground_image
                 @ map (\<lambda>step. draw_mark (fst step) t (snd step)) (draw_steps demo_layers),
               demo_frame t],
             writer := Some (vw\<lparr> sent := sent vw @ [demo_frame t] \<rparr>) \<rparr>"
  have rf: "render_frame demo_env demo_layers 1 0 t w = (Inr (), ?w1)"
    using Cons.prems
    by (simp add: render_frame_eq draw_all_demo send_eq demo_frame_def demo_env_simps)
  have "\<exists>w'. frames_loop demo_env demo_layers 1 0 ts ?w1 = (Inr (), w')
           \<and> writer w' = Some (vw\<lparr> sent := sent vw @ [demo_frame t] \<rparr>\<lparr> sent := sent (vw\<lparr> sent := sent vw @ [demo_frame t] \<rparr>) @ map demo_frame ts \<rparr>)"
    using Cons.prems by (intro Cons.IH) (simp_all add: nth_append)
  then show ?case using rf by auto
qed


lemma start_success:
  assumes "start env self w = (Inr self', w')"
  shows "\<exists>w1 fg bg il ls w3 vw.
           load_map env self w = (Inr self', w1)
         \<and> minimap_image self' = Some fg \<and> minimap_bg self' = Some bg
         \<and> check_versioned_layers (modules env) self' = Inr il
         \<and> bind_layers il = Inr ls
         \<and> ffmpeg_start env (writer_args_of env (images w1 ! bg)) = None
         \<and> frames_loop env ls fg bg (map fst (events (replay_data self')))
              (w1\<lparr> writer := Some \<lparr> args = writer_args_of env (images w1 ! bg),
                                     status = Running, sent = [] \<rparr> \<rparr>) = (Inr (), w3)
         \<and> writer w3 = Some vw
         \<and> w' = w3\<lparr> writer := Some (vw\<lparr> status := Closed \<rparr>) \<rparr>"
  using assms unfolding start_unfold
  by (auto split: prod.splits sum.splits option.splits)

text \<open>
  C1. When \<^verbatim>\<open>start\<close> returns, the video writer has been sent exactly one frame for
  each entry of \<open>events\<close>, and the i-th frame sent is the bytes of the frame composed,
  from the session's two images and the bound layers, for the i-th game time in the
  iteration order of \<open>events\<close>.
\<close>

theorem frames_follow_events:
  assumes "start env self w = (Inr self', w')"
  shows "\<exists>w1 fg bg il ls vw.
           load_map env self w = (Inr self', w1)
         \<and> minimap_image self' = Some fg \<and> minimap_bg self' = Some bg
         \<and> check_versioned_layers (modules env) self' = Inr il
         \<and> bind_layers il = Inr ls
         \<and> writer w' = Some vw
         \<and> length (sent vw) = length (events (replay_data self))
         \<and> list_all2 (frame_for env ls (images w1 ! fg) (images w1 ! bg))
              (map fst (events (replay_data self))) (sent vw)"
proof -
  from start_success [OF assms] obtain w1 fg bg il ls w3 vw where
    lm: "load_map env self w = (Inr self', w1)"
    and fg: "minimap_image self' = Some fg" and bg: "minimap_bg self' = Some bg"
    and il: "check_versioned_layers (modules env) self' = Inr il"
    and ls: "bind_layers il = Inr ls"
    and fl: "frames_loop env ls fg bg (map fst (events (replay_data self')))
              (w1\<lparr> writer := Some \<lparr> args = writer_args_of env (images w1 ! bg),
                                     status = Running, sent = [] \<rparr> \<rparr>) = (Inr (), w3)"
    and vw: "writer w3 = Some vw"
    and w': "w' = w3\<lparr> writer := Some (vw\<lparr> status := Closed \<rparr>) \<rparr>"
    by blast
  let ?v0 = "\<lparr> args = writer_args_of env (images w1 ! bg), status = Running, sent = [] \<rparr>"
  let ?w2 = "w1\<lparr> writer := Some ?v0 \<rparr>"
  from load_map_outcome [OF lm] fg bg have rd: "replay_data self' = replay_data self"
    and fgl: "fg < length (images ?w2)" and bgl: "bg < length (images ?w2)"
    by auto
  have wr: "writer ?w2 = Some ?v0" by simp
  from frames_loop_outcome [OF fgl bgl wr fl] obtain bs where
    l: "list_all2 (frame_for env ls (images ?w2 ! fg) (images ?w2 ! bg))
          (take (length bs) (map fst (events (replay_data self')))) bs"
    and n: "length bs = length (map fst (events (replay_data self')))"
    and s: "writer w3 = Some (?v0\<lparr> sent := sent ?v0 @ bs \<rparr>)"
    by auto
  from s vw have sv: "sent vw = bs" by auto
  from l n have l': "list_all2 (frame_for env ls (images w1 ! fg) (images w1 ! bg))
          (map fst (events (replay_data self))) bs"
    by (simp add: rd)
  have "writer w' = Some (vw\<lparr> status := Closed \<rparr>)" using w' by simp
  moreover have "sent (vw\<lparr> status := Closed \<rparr>) = bs" using sv by simp
  moreover have "length bs = length (events (replay_data self))" using n rd by simp
  ultimately show ?thesis using lm fg bg il ls l' by blast
qed

lemma start_demo:
  "\<exists>w'. start demo_env (init two_frames) empty_world = (Inr loaded_session, w')"
proof -
  obtain il where il: "check_versioned_layers (modules demo_env) loaded_session = Inr il"
    and bl: "bind_layers il = Inr demo_layers" using demo_bound(1) by blast
  let ?v0 = "\<lparr> args = writer_args_of demo_env (images loaded_world ! 0),
              status = Running, sent = [] :: string list list \<rparr>"
  have "\<exists>w'. frames_loop demo_env demo_layers 1 0 (map fst (events (replay_data loaded_session)))
          (loaded_world\<lparr> writer := Some ?v0 \<rparr>) = (Inr (), w')
        \<and> writer w' = Some (?v0\<lparr> sent := sent ?v0
             @ map demo_frame (map fst (events (replay_data loaded_session))) \<rparr>)"
    by (rule frames_loop_demo) (simp_all add: loaded_world_def)
  then obtain w3 where
    fl: "frames_loop demo_env demo_layers 1 0 (map fst (events (replay_data loaded_session)))
          (loaded_world\<lparr> writer := Some ?v0 \<rparr>) = (Inr (), w3)"
    and w3: "writer w3 = Some (?v0\<lparr> sent := sent ?v0
             @ map demo_frame (map fst (events (replay_data loaded_session))) \<rparr>)"
    by blast
  have m: "minimap_image loaded_session = Some 1" "minimap_bg loaded_session = Some 0"
    by (simp_all add: loaded_session_def)
  show ?thesis
    unfolding start_unfold
    using il bl fl w3 by (simp add: demo_loaded m demo_env_simps)
qed

theorem frames_follow_events_witness:
  "\<exists>w' vw. start demo_env (init two_frames) empty_world = (Inr loaded_session, w')
      \<and> writer w' = Some vw
      \<and> length (sent vw) = 2
      \<and> sent vw = [demo_frame 0, demo_frame 1]"
proof -
  obtain w' where st: "start demo_env (init two_frames) empty_world = (Inr loaded_session, w')"
    using start_demo by blast
  from frames_follow_events [OF st] obtain w1 fg bg il ls vw where
    lm: "load_map demo_env (init two_frames) empty_world = (Inr loaded_session, w1)"
    and fg: "minimap_image loaded_session = Some fg" and bg: "minimap_bg loaded_session = Some bg"
    and il: "check_versioned_layers (modules demo_env) loaded_session = Inr il"
    and ls: "bind_layers il = Inr ls"
    and vw: "writer w' = Some vw"
    and n: "length (sent vw) = length (events (replay_data (init two_frames)))"
    and l: "list_all2 (frame_for demo_env ls (images w1 ! fg) (images w1 ! bg))
              (map fst (events (replay_data (init two_frames)))) (sent vw)"
    by blast
  from lm have w1: "w1 = loaded_world" by (simp add: demo_loaded)
  from fg bg have r: "fg = 1" "bg = 0" by (simp_all add: loaded_session_def)
  from il ls demo_bound(1) have d: "ls = demo_layers" by auto
  have ev: "map fst (events (replay_data (init two_frames))) = [0, 1]"
    by (simp add: init_def two_frames_def)
  from l have "list_all2 (frame_for demo_env demo_layers foreground_image background_image)
                 [0, 1] (sent vw)"
    unfolding ev w1 r d by (simp add: loaded_world_def)
  then have s: "sent vw = [demo_frame 0, demo_frame 1]"
    by (auto simp: list_all2_Cons1 frame_for_def compose_demo demo_env_simps)
  from n have "length (sent vw) = 2" by (simp add: init_def two_frames_def)
  with st vw s show ?thesis by blast
qed

section \<open>One frame, and the video writer on the ways out\<close>

text \<open>
  C2. For each game time of the loop, with the session's two images in the store:
  the seven layers draw, in the order Capture, Ward, Shot, Torpedo, Ship, Smoke,
  Plane (Shot and Torpedo on a drawing context), on a new copy of the foreground;
  that copy is pasted at \<open>(40, 40)\<close> on a new copy of the background, and the bytes of
  the result are sent. The two copies are new objects of the store (the objects
  before them are unchanged); an exception of a layer or of the paste ends the frame
  before anything is sent.
\<close>

theorem frame_composition:
  assumes "fg < length (images w)" and "bg < length (images w)"
  shows "render_frame env ls fg bg t w =
     (case draw_all env t
             [(layer_capture ls, AsImage), (layer_ward ls, AsImage), (layer_shot ls, AsDraw),
              (layer_torpedo ls, AsDraw), (layer_ship ls, AsImage), (layer_smoke ls, AsImage),
              (layer_plane ls, AsImage)]
             (images w ! fg) of
        (Some e, img) \<Rightarrow> (Inl e, w\<lparr> images := images w @ [img, images w ! bg] \<rparr>)
      | (None, img) \<Rightarrow>
          (case paste env (images w ! bg) img (Some (40, 40)) None of
             Inl e \<Rightarrow> (Inl e, w\<lparr> images := images w @ [img, images w ! bg] \<rparr>)
           | Inr frame \<Rightarrow>
               send env (tobytes env frame) (w\<lparr> images := images w @ [img, frame] \<rparr>)))"
  using render_frame_eq [OF assms, of env ls t] by (simp add: draw_steps_def)

theorem frame_composition_witness:
  "1 < length (images (loaded_world\<lparr> writer := Some demo_writer \<rparr>))
   \<and> 0 < length (images (loaded_world\<lparr> writer := Some demo_writer \<rparr>))
   \<and> render_frame demo_env demo_layers 1 0 0 (loaded_world\<lparr> writer := Some demo_writer \<rparr>)
      = (Inr (),
         \<lparr> images =
             [background_image, foreground_image,
              foreground_image @
                [''LayerCaptureBase'', ''LayerWardBase'', ''LayerShotBase(draw)'',
                 ''LayerTorpedoBase(draw)'', ''LayerShipBase'', ''LayerSmokeBase'',
                 ''LayerPlaneBase''],
              demo_frame 0],
           writer = Some (demo_writer\<lparr> sent := [demo_frame 0] \<rparr>) \<rparr>)"
proof -
  let ?w = "loaded_world\<lparr> writer := Some demo_writer \<rparr>"
  have 1: "1 < length (images ?w)" and 0: "0 < length (images ?w)"
    by (simp_all add: loaded_world_def)
  have i1: "images ?w ! 1 = foreground_image" and i0: "images ?w ! 0 = background_image"
    by (simp_all add: loaded_world_def)
  have d: "draw_all demo_env 0
             [(layer_capture demo_layers, AsImage), (layer_ward demo_layers, AsImage),
              (layer_shot demo_layers, AsDraw), (layer_torpedo demo_layers, AsDraw),
              (layer_ship demo_layers, AsImage), (layer_smoke demo_layers, AsImage),
              (layer_plane demo_layers, AsImage)] foreground_image
           = (None, foreground_image @
                [''LayerCaptureBase'', ''LayerWardBase'', ''LayerShotBase(draw)'',
                 ''LayerTorpedoBase(draw)'', ''LayerShipBase'', ''LayerSmokeBase'',
                 ''LayerPlaneBase''])"
    unfolding draw_all_demo by (simp add: demo_layers_def default_layer_def draw_mark_def)
  have f: "demo_frame 0 = background_image @ ''paste'' # foreground_image @
                [''LayerCaptureBase'', ''LayerWardBase'', ''LayerShotBase(draw)'',
                 ''LayerTorpedoBase(draw)'', ''LayerShipBase'', ''LayerSmokeBase'',
                 ''LayerPlaneBase'']"
    by (simp add: demo_frame_def draw_steps_def demo_layers_def default_layer_def draw_mark_def)
  have "render_frame demo_env demo_layers 1 0 0 ?w
      = (Inr (),
         \<lparr> images =
             [background_image, foreground_image,
              foreground_image @
                [''LayerCaptureBase'', ''LayerWardBase'', ''LayerShotBase(draw)'',
                 ''LayerTorpedoBase(draw)'', ''LayerShipBase'', ''LayerSmokeBase'',
                 ''LayerPlaneBase''],
              demo_frame 0],
           writer = Some (demo_writer\<lparr> sent := [demo_frame 0] \<rparr>) \<rparr>)"
    unfolding frame_composition [OF 1 0, of demo_env demo_layers 0, unfolded i1 i0 d]
    by (simp add: loaded_world_def f demo_env_simps send_def demo_writer_def)
  with 1 0 show ?thesis by blast
qed

lemma frames_loop_failure:
  assumes "fg < length (images w)" "bg < length (images w)" "writer w = Some vw"
    and "frames_loop env ls fg bg ts w = (Inl e, w')"
  shows "\<exists>vw'. writer w' = Some vw' \<and> (status vw' = status vw \<or> status vw' = Failed)"
  using frames_loop_outcome [OF assms] by auto

lemma draw_all_broken:
  "draw_all broken_ship_env 0 (draw_steps demo_layers) foreground_image
   = (Some (OtherError ''draw failed''),
      foreground_image @ [''LayerCaptureBase'', ''LayerWardBase'', ''LayerShotBase(draw)'',
                          ''LayerTorpedoBase(draw)''])"
  by (simp add: draw_steps_def demo_layers_def default_layer_def broken_ship_env_def
      demo_env_def draw_mark_def)

lemma start_broken:
  "start broken_ship_env (init two_frames) empty_world
   = (Inl (OtherError ''draw failed''),
      \<lparr> images =
          [background_image, foreground_image,
           foreground_image @ [''LayerCaptureBase'', ''LayerWardBase'', ''LayerShotBase(draw)'',
                               ''LayerTorpedoBase(draw)''],
           background_image],
        writer = Some demo_writer \<rparr>)"
proof -
  obtain il where il: "check_versioned_layers (modules broken_ship_env) loaded_session = Inr il"
    and bl: "bind_layers il = Inr demo_layers" using demo_bound(2) by blast
  have m: "minimap_image loaded_session = Some 1" "minimap_bg loaded_session = Some 0"
    "map fst (events (replay_data loaded_session)) = [0, 1]"
    by (simp_all add: loaded_session_def init_def two_frames_def)
  have e: "ffmpeg_start broken_ship_env a = None"
    "writer_args_of broken_ship_env img = args demo_writer" for a img
    by (simp_all add: broken_ship_env_def demo_env_def writer_args_of_def demo_writer_def)
  let ?w2 = "loaded_world\<lparr> writer := Some \<lparr> args = args demo_writer, status = Running,
                                               sent = [] :: string list list \<rparr> \<rparr>"
  have l: "1 < length (images ?w2)" "0 < length (images ?w2)" by (simp_all add: loaded_world_def)
  have i: "images ?w2 ! 1 = foreground_image" "images ?w2 ! 0 = background_image"
    by (simp_all add: loaded_world_def)
  have rf: "render_frame broken_ship_env demo_layers 1 0 0 ?w2
     = (Inl (OtherError ''draw failed''),
        ?w2\<lparr> images := images ?w2 @
           [foreground_image @ [''LayerCaptureBase'', ''LayerWardBase'', ''LayerShotBase(draw)'',
                                ''LayerTorpedoBase(draw)''],
            background_image] \<rparr>)"
    unfolding render_frame_eq [OF l, of broken_ship_env demo_layers 0, unfolded i draw_all_broken]
    by simp
  have fl: "frames_loop broken_ship_env demo_layers 1 0 [0, 1] ?w2
     = (Inl (OtherError ''draw failed''),
        ?w2\<lparr> images := images ?w2 @
           [foreground_image @ [''LayerCaptureBase'', ''LayerWardBase'', ''LayerShotBase(draw)'',
                                ''LayerTorpedoBase(draw)''],
            background_image] \<rparr>)"
    using rf by simp
  show ?thesis
    unfolding start_unfold
    using il bl fl by (simp add: demo_loaded m e loaded_world_def demo_writer_def)
qed

text \<open>
  C9 as stated fails: \<^verbatim>\<open>start\<close> has no \<^verbatim>\<open>try\<close> around the loop, and
  \<^verbatim>\<open>video_writer.close()\<close> is its last statement. When the ship layer raises in the
  first frame, the exception leaves \<^verbatim>\<open>start\<close> with the writer started, nothing
  sent to it, and not closed.
\<close>

theorem sink_left_open_counterexample:
  "fst (start broken_ship_env (init two_frames) empty_world) = Inl (OtherError ''draw failed'')
   \<and> writer (snd (start broken_ship_env (init two_frames) empty_world)) = Some demo_writer
   \<and> status demo_writer = Running"
  by (simp add: start_broken demo_writer_def)

text \<open>
  C9, amended. From a store without a video writer: when \<^verbatim>\<open>start\<close> returns, the
  writer is closed; when \<^verbatim>\<open>start\<close> raises, either no writer was made, or the
  writer is left as it was at the exception, running or ended by an exception of its
  own, and never closed.
\<close>

theorem sink_closed_only_on_success:
  assumes "writer w = None" and "start env self w = (r, w')"
  shows "case r of
           Inr s \<Rightarrow> (\<exists>vw. writer w' = Some vw \<and> status vw = Closed)
         | Inl e \<Rightarrow>
             writer w' = None
             \<or> (\<exists>vw. writer w' = Some vw \<and> (status vw = Running \<or> status vw = Failed))"
proof (cases r)
  case (Inr s)
  from start_success [OF assms(2) [unfolded Inr]] show ?thesis
    unfolding Inr by auto
next
  case (Inl e)
  obtain r1 w1 where lm: "load_map env self w = (r1, w1)" by fastforce
  note o = load_map_outcome [OF lm]
  from o assms(1) have n: "writer w1 = None" by simp
  show ?thesis
  proof (cases r1)
    case (Inl e1)
    with assms(2) lm have "w' = w1" unfolding start_unfold by simp
    with n \<open>r = Inl e\<close> show ?thesis by simp
  next
    case (Inr self1)
    with o obtain fg bg where fg: "minimap_image self1 = Some fg"
      and bg: "minimap_bg self1 = Some bg"
      and fgl: "fg < length (images w1)" and bgl: "bg < length (images w1)" by auto
    let ?v0 = "\<lparr> args = writer_args_of env (images w1 ! bg), status = Running, sent = [] \<rparr>"
    let ?w2 = "w1\<lparr> writer := Some ?v0 \<rparr>"
    have loop: "\<exists>vw'. writer w3 = Some vw' \<and> (status vw' = Running \<or> status vw' = Failed)"
      if "frames_loop env ls fg bg (map fst (events (replay_data self1))) ?w2 = (Inl e', w3)"
      for ls e' w3
    proof -
      have a: "fg < length (images ?w2)" "bg < length (images ?w2)" using fgl bgl by simp_all
      have b: "writer ?w2 = Some ?v0" by simp
      from frames_loop_failure [OF a b that] show ?thesis by simp
    qed
    from assms(2) \<open>r = Inl e\<close> lm Inr fg bg n show ?thesis
      unfolding start_unfold
      by (auto split: sum.splits option.splits prod.splits dest: loop)
  qed
qed

theorem sink_closed_only_on_success_witness:
  "writer empty_world = None
   \<and> (\<exists>w' vw. start demo_env (init two_frames) empty_world = (Inr loaded_session, w')
         \<and> writer w' = Some vw \<and> status vw = Closed)"
proof -
  have n: "writer empty_world = None" by (simp add: empty_world_def)
  obtain w' where st: "start demo_env (init two_frames) empty_world = (Inr loaded_session, w')"
    using start_demo by blast
  from sink_closed_only_on_success [OF n st] n st show ?thesis by simp
qed

end
